theory Spec2Isabelle
  imports Main "HOL-Library.Word" "HOL-Library.Monad_Syntax"
begin

unbundle bit_operations_syntax

section \<open>Keccak-256 sponge of package keccak (keccak.go)\<close>

text \<open>
  The Go code works on fixed-size byte arrays (\<^verbatim>\<open>[200]byte\<close>, \<^verbatim>\<open>[rate]byte\<close>) and on
  byte slices. Both are byte lists here; the array sizes are the well-formedness
  conditions \<open>length st = 200\<close> and \<open>length (buf h) = 136\<close> of the theorems. A Go
  run-time panic (index or slice bounds out of range) is the value \<open>None\<close>.
\<close>

type_synonym byte = "8 word"
type_synonym uint64 = "64 word"

definition rate :: nat where
  "rate = 136"

subsection \<open>Go slice and index expressions, with their bounds checks\<close>

text \<open>\<^verbatim>\<open>s[lo:hi]\<close>: panics unless \<open>lo \<le> hi \<le> len(s)\<close>.\<close>

definition go_slice :: "'a list \<Rightarrow> nat \<Rightarrow> nat \<Rightarrow> 'a list option" where
  "go_slice s lo hi =
     (if lo \<le> hi \<and> hi \<le> length s then Some (take (hi - lo) (drop lo s)) else None)"

text \<open>\<^verbatim>\<open>s[i]\<close> as a value: panics unless \<open>i < len(s)\<close>.\<close>

definition go_index :: "'a list \<Rightarrow> nat \<Rightarrow> 'a option" where
  "go_index s i = (if i < length s then Some (s ! i) else None)"

text \<open>\<^verbatim>\<open>s[i] ^= v\<close> on bytes.\<close>

definition xor_at :: "byte list \<Rightarrow> nat \<Rightarrow> byte \<Rightarrow> byte list option" where
  "xor_at s i v = (if i < length s then Some (s[i := s ! i XOR v]) else None)"

text \<open>
  \<^verbatim>\<open>copy(dst[lo:hi], src)\<close> seen from the array \<open>dst\<close>: it copies
  \<open>n = min (hi - lo) (len src)\<close> bytes to \<open>dst[lo..lo+n)\<close> and returns \<open>n\<close>.
\<close>

definition go_copy :: "'a list \<Rightarrow> nat \<Rightarrow> nat \<Rightarrow> 'a list \<Rightarrow> ('a list \<times> nat) option" where
  "go_copy dst lo hi src = do {
     window \<leftarrow> go_slice dst lo hi;
     let n = min (length window) (length src);
     Some (take lo dst @ take n src @ drop (lo + n) dst, n)
   }"

subsection \<open>The 64-bit view of the state\<close>

text \<open>\<^verbatim>\<open>le64\<close>: reads a little-endian uint64 from at least 8 bytes.\<close>

definition le64 :: "byte list \<Rightarrow> uint64 option" where
  "le64 b = do {
     _ \<leftarrow> go_index b 7;
     Some (ucast (b ! 0) OR push_bit 8 (ucast (b ! 1)) OR push_bit 16 (ucast (b ! 2))
           OR push_bit 24 (ucast (b ! 3)) OR push_bit 32 (ucast (b ! 4))
           OR push_bit 40 (ucast (b ! 5)) OR push_bit 48 (ucast (b ! 6))
           OR push_bit 56 (ucast (b ! 7)))
   }"

text \<open>
  \<^verbatim>\<open>stateU64 := (*[25]uint64)(unsafe.Pointer(state))\<close> reinterprets the 200 bytes as 25
  machine words, in the byte order of the machine. The builds the package names
  (amd64, arm64) are little-endian, and that layout is fixed here: word \<open>i\<close> is the
  bytes \<open>8i .. 8i+7\<close>, least significant first. A big-endian target is not covered.
\<close>

definition u64_of_bytes :: "byte list \<Rightarrow> uint64" where
  "u64_of_bytes bs = foldr (\<lambda>b w. ucast b OR push_bit 8 w) bs 0"

definition bytes_of_u64 :: "uint64 \<Rightarrow> byte list" where
  "bytes_of_u64 w = map (\<lambda>k. ucast (drop_bit (8 * k) w)) [0..<8]"

text \<open>\<^verbatim>\<open>stateU64[i]\<close> as a value.\<close>

definition loadU64 :: "byte list \<Rightarrow> nat \<Rightarrow> uint64 option" where
  "loadU64 st i = (if i < 25 then Some (u64_of_bytes (take 8 (drop (8 * i) st))) else None)"

text \<open>\<^verbatim>\<open>stateU64[i] = w\<close>.\<close>

definition storeU64 :: "byte list \<Rightarrow> nat \<Rightarrow> uint64 \<Rightarrow> byte list option" where
  "storeU64 st i w =
     (if i < 25 then Some (take (8 * i) st @ bytes_of_u64 w @ drop (8 * i + 8) st) else None)"

subsection \<open>xorIn\<close>

text \<open>First loop of \<^verbatim>\<open>xorIn\<close>: \<^verbatim>\<open>for i := 0; i < n; i++ { stateU64[i] ^= le64(data[8*i:]) }\<close>.\<close>

function xorIn_words :: "byte list \<Rightarrow> byte list \<Rightarrow> nat \<Rightarrow> nat \<Rightarrow> byte list option" where
  "xorIn_words st data n i =
     (if i < n then do {
        d \<leftarrow> go_slice data (8 * i) (length data);
        v \<leftarrow> le64 d;
        w \<leftarrow> loadU64 st i;
        st' \<leftarrow> storeU64 st i (w XOR v);
        xorIn_words st' data n (i + 1)
      } else Some st)"
  by pat_completeness auto
termination
  by (relation "measure (\<lambda>(st, data, n, i). n - i)") auto

declare xorIn_words.simps [simp del]

text \<open>Second loop: \<^verbatim>\<open>for i := n << 3; i < len(data); i++ { state[i] ^= data[i] }\<close>.\<close>

function xorIn_bytes :: "byte list \<Rightarrow> byte list \<Rightarrow> nat \<Rightarrow> byte list option" where
  "xorIn_bytes st data i =
     (if i < length data then do {
        d \<leftarrow> go_index data i;
        st' \<leftarrow> xor_at st i d;
        xorIn_bytes st' data (i + 1)
      } else Some st)"
  by pat_completeness auto
termination
  by (relation "measure (\<lambda>(st, data, i). length data - i)") auto

declare xorIn_bytes.simps [simp del]

definition xorIn :: "byte list \<Rightarrow> byte list \<Rightarrow> byte list option" where
  "xorIn st data = do {
     let n = drop_bit 3 (length data);
     st' \<leftarrow> xorIn_words st data n 0;
     xorIn_bytes st' data (push_bit 3 n)
   }"

subsection \<open>The permutation\<close>

text \<open>
  Modelled from the spec: \<^verbatim>\<open>keccakF1600\<close>, whose bodies (assembly and
  \<^verbatim>\<open>keccakF1600Generic\<close>) are not among the sources. The spec asks for the standard
  Keccak-f[1600] round function, 24 rounds, bit-exactly: lane \<open>(x, y)\<close> is the
  little-endian word at bytes \<open>8 (x + 5 y)\<close>, and a round is \<open>\<theta>\<close>, \<open>\<rho>\<close> and \<open>\<pi>\<close>,
  \<open>\<chi>\<close>, \<open>\<iota>\<close>.
\<close>

definition rotl :: "uint64 \<Rightarrow> nat \<Rightarrow> uint64" where
  "rotl w n = word_rotl n w"

definition RC :: "uint64 list" where
  "RC = [0x0000000000000001, 0x0000000000008082, 0x800000000000808A, 0x8000000080008000,
         0x000000000000808B, 0x0000000080000001, 0x8000000080008081, 0x8000000000008009,
         0x000000000000008A, 0x0000000000000088, 0x0000000080008009, 0x000000008000000A,
         0x000000008000808B, 0x800000000000008B, 0x8000000000008089, 0x8000000000008003,
         0x8000000000008002, 0x8000000000000080, 0x000000000000800A, 0x800000008000000A,
         0x8000000080008081, 0x8000000000008080, 0x0000000080000001, 0x8000000080008008]"

definition rho_offsets :: "nat list" where
  "rho_offsets = [ 0,  1, 62, 28, 27,
                  36, 44,  6, 55, 20,
                   3, 10, 43, 25, 39,
                  41, 45, 15, 21,  8,
                  18,  2, 61, 56, 14]"

definition theta :: "uint64 list \<Rightarrow> uint64 list" where
  "theta a =
     (let c = map (\<lambda>x. a ! x XOR a ! (x + 5) XOR a ! (x + 10) XOR a ! (x + 15) XOR a ! (x + 20))
                  [0..<5];
          d = map (\<lambda>x. c ! ((x + 4) mod 5) XOR rotl (c ! ((x + 1) mod 5)) 1) [0..<5]
      in map (\<lambda>i. a ! i XOR d ! (i mod 5)) [0..<25])"

definition rho_pi :: "uint64 list \<Rightarrow> uint64 list" where
  "rho_pi a =
     map (\<lambda>j. let x' = j mod 5; y' = j div 5; x = (x' + 3 * y') mod 5; y = x'
              in rotl (a ! (x + 5 * y)) (rho_offsets ! (x + 5 * y))) [0..<25]"

definition chi :: "uint64 list \<Rightarrow> uint64 list" where
  "chi b =
     map (\<lambda>i. let x = i mod 5; y = i div 5
              in b ! i XOR (NOT (b ! ((x + 1) mod 5 + 5 * y)) AND b ! ((x + 2) mod 5 + 5 * y)))
         [0..<25]"

definition iota :: "nat \<Rightarrow> uint64 list \<Rightarrow> uint64 list" where
  "iota r a = a[0 := a ! 0 XOR RC ! r]"

definition keccak_round :: "nat \<Rightarrow> uint64 list \<Rightarrow> uint64 list" where
  "keccak_round r a = iota r (chi (rho_pi (theta a)))"

definition keccak_f :: "uint64 list \<Rightarrow> uint64 list" where
  "keccak_f a = fold keccak_round [0..<24] a"

definition lanes_of_bytes :: "byte list \<Rightarrow> uint64 list" where
  "lanes_of_bytes st = map (\<lambda>i. u64_of_bytes (take 8 (drop (8 * i) st))) [0..<25]"

definition bytes_of_lanes :: "uint64 list \<Rightarrow> byte list" where
  "bytes_of_lanes a = concat (map bytes_of_u64 a)"

definition keccakF1600 :: "byte list \<Rightarrow> byte list" where
  "keccakF1600 st = bytes_of_lanes (keccak_f (lanes_of_bytes st))"

subsection \<open>Sum256\<close>

text \<open>
  The loop \<^verbatim>\<open>for len(data) >= rate { xorIn(&state, data[:rate]); keccakF1600(&state);
  data = data[rate:] }\<close>, which Sum256 and Hasher.Write both contain. It returns
  the state and the rest of the data.
\<close>

function absorb_loop :: "byte list \<Rightarrow> byte list \<Rightarrow> (byte list \<times> byte list) option" where
  "absorb_loop st data =
     (if length data \<ge> rate then do {
        blk \<leftarrow> go_slice data 0 rate;
        st1 \<leftarrow> xorIn st blk;
        let st2 = keccakF1600 st1;
        data' \<leftarrow> go_slice data rate (length data);
        absorb_loop st2 data'
      } else Some (st, data))"
  by pat_completeness auto
termination
  by (relation "measure (\<lambda>(st, data). length data)")
     (auto simp: go_slice_def rate_def split: if_splits)

declare absorb_loop.simps [simp del]

definition Sum256 :: "byte list \<Rightarrow> byte list option" where
  "Sum256 data = do {
     (st, tail) \<leftarrow> absorb_loop (replicate 200 0) data;
     st \<leftarrow> xorIn st tail;
     st \<leftarrow> xor_at st (length tail) 0x01;
     st \<leftarrow> xor_at st (rate - 1) 0x80;
     let st = keccakF1600 st;
     go_slice st 0 32
   }"

text \<open>The bytes of a string of ASCII characters, as \<^verbatim>\<open>[]byte("hello")\<close> gives them.\<close>

definition ascii :: "string \<Rightarrow> byte list" where
  "ascii s = map (\<lambda>c. word_of_nat (of_char c)) s"

subsection \<open>Hasher\<close>

record Hasher =
  state :: "byte list"
  buf :: "byte list"
  absorbed :: int

text \<open>The zero value \<^verbatim>\<open>var h Hasher\<close>, which is how a hasher is constructed.\<close>

definition zero_Hasher :: Hasher where
  "zero_Hasher = \<lparr>state = replicate 200 0, buf = replicate 136 0, absorbed = 0\<rparr>"

definition Reset :: "Hasher \<Rightarrow> Hasher" where
  "Reset h = h\<lparr>state := replicate 200 0, absorbed := 0\<rparr>"

text \<open>
  The first \<^verbatim>\<open>if\<close> of Write (top up the pending buffer); it returns the hasher and
  the rest of \<open>p\<close>.
\<close>

definition Write_topup :: "Hasher \<Rightarrow> byte list \<Rightarrow> (Hasher \<times> byte list) option" where
  "Write_topup h p =
     (if absorbed h > 0 then do {
        (b, n) \<leftarrow> go_copy (buf h) (nat (absorbed h)) rate p;
        let h = h\<lparr>buf := b, absorbed := absorbed h + int n\<rparr>;
        p \<leftarrow> go_slice p n (length p);
        if absorbed h = int rate then do {
          st \<leftarrow> xorIn (state h) (buf h);
          Some (h\<lparr>state := keccakF1600 st, absorbed := 0\<rparr>, p)
        } else Some (h, p)
      } else Some (h, p))"

definition Write :: "Hasher \<Rightarrow> byte list \<Rightarrow> Hasher option" where
  "Write h p = do {
     (h, p) \<leftarrow> Write_topup h p;
     (st, p) \<leftarrow> absorb_loop (state h) p;
     let h = h\<lparr>state := st\<rparr>;
     if length p > 0 then do {
       (b, n) \<leftarrow> go_copy (buf h) 0 (length (buf h)) p;
       Some (h\<lparr>buf := b, absorbed := int n\<rparr>)
     } else Some h
   }"

text \<open>
  Hasher.Sum256 has a pointer receiver; the model returns the hasher as the call
  leaves it, with the digest. \<^verbatim>\<open>state := h.state\<close> copies the array, so the XORs and the
  permutation work on the copy, and no field of \<open>h\<close> is assigned.
\<close>

definition Hasher_Sum256 :: "Hasher \<Rightarrow> (Hasher \<times> byte list) option" where
  "Hasher_Sum256 h =
     (if absorbed h < 0 then None else do {
        let st = state h;
        pending \<leftarrow> go_slice (buf h) 0 (nat (absorbed h));
        st \<leftarrow> xorIn st pending;
        st \<leftarrow> xor_at st (nat (absorbed h)) 0x01;
        st \<leftarrow> xor_at st (rate - 1) 0x80;
        let st = keccakF1600 st;
        d \<leftarrow> go_slice st 0 32;
        Some (h, d)
      })"

subsection \<open>Sequences of calls on one hasher\<close>

datatype op = OpWrite "byte list" | OpSum256

text \<open>Runs the calls in order; returns the hasher at the end and the digests in order.\<close>

fun run :: "Hasher \<Rightarrow> op list \<Rightarrow> (Hasher \<times> byte list list) option" where
  "run h [] = Some (h, [])"
| "run h (OpWrite p # ops) = do { h' \<leftarrow> Write h p; run h' ops }"
| "run h (OpSum256 # ops) = do {
     (h', d) \<leftarrow> Hasher_Sum256 h;
     (h'', ds) \<leftarrow> run h' ops;
     Some (h'', d # ds)
   }"

text \<open>The hasher states that the exported operations can produce.\<close>

inductive reachable :: "Hasher \<Rightarrow> bool" where
  reachable_zero: "reachable zero_Hasher"
| reachable_Reset: "reachable h \<Longrightarrow> reachable (Reset h)"
| reachable_Write: "reachable h \<Longrightarrow> Write h p = Some h' \<Longrightarrow> reachable h'"
| reachable_Sum256: "reachable h \<Longrightarrow> Hasher_Sum256 h = Some (h', d) \<Longrightarrow> reachable h'"

text \<open>The array types of the fields, and the bound on the pending count.\<close>

definition wf_Hasher :: "Hasher \<Rightarrow> bool" where
  "wf_Hasher h \<longleftrightarrow> length (state h) = 200 \<and> length (buf h) = rate"

definition inv_Hasher :: "Hasher \<Rightarrow> bool" where
  "inv_Hasher h \<longleftrightarrow> wf_Hasher h \<and> 0 \<le> absorbed h \<and> absorbed h < int rate"

text \<open>The pending bytes: the first \<open>absorbed\<close> bytes of the buffer.\<close>

definition pending :: "Hasher \<Rightarrow> byte list" where
  "pending h = take (nat (absorbed h)) (buf h)"

subsection \<open>The algorithm as the specification words it\<close>

text \<open>
  Byte-for-byte XOR of \<open>data\<close> into the state, on the positions from \<open>lo\<close> up to
  \<open>hi\<close>: position \<open>j\<close> becomes \<open>st ! j XOR data ! j\<close>, every other position is kept.
\<close>

definition xor_range :: "nat \<Rightarrow> nat \<Rightarrow> byte list \<Rightarrow> byte list \<Rightarrow> byte list" where
  "xor_range lo hi st data =
     map (\<lambda>j. if lo \<le> j \<and> j < hi then st ! j XOR data ! j else st ! j) [0..<length st]"

definition xor_bytes :: "byte list \<Rightarrow> byte list \<Rightarrow> byte list" where
  "xor_bytes st data = xor_range 0 (length data) st data"

text \<open>
  Step 1 and 2 of the one-shot algorithm: while at least Rate bytes remain, XOR the
  next Rate bytes into the state and permute; the result is the state and the tail.
\<close>

function spec_absorb :: "byte list \<Rightarrow> byte list \<Rightarrow> byte list \<times> byte list" where
  "spec_absorb st data =
     (if length data \<ge> rate
      then spec_absorb (keccakF1600 (xor_bytes st (take rate data))) (drop rate data)
      else (st, data))"
  by pat_completeness auto
termination
  by (relation "measure (\<lambda>(st, data). length data)") (auto simp: rate_def)

declare spec_absorb.simps [simp del]

text \<open>Step 3: XOR 0x01 into \<open>state[len(tail)]\<close>, then 0x80 into \<open>state[Rate-1]\<close>.\<close>

definition spec_pad :: "byte list \<Rightarrow> nat \<Rightarrow> byte list" where
  "spec_pad st n =
     (let st1 = st[n := st ! n XOR 0x01]
      in st1[rate - 1 := st1 ! (rate - 1) XOR 0x80])"

text \<open>Steps 2 to 5: absorb the tail, pad, permute, squeeze 32 bytes.\<close>

definition spec_finalize :: "byte list \<Rightarrow> byte list \<Rightarrow> byte list" where
  "spec_finalize st tail = take 32 (keccakF1600 (spec_pad (xor_bytes st tail) (length tail)))"

definition spec_Sum256 :: "byte list \<Rightarrow> byte list" where
  "spec_Sum256 data =
     (let (st, tail) = spec_absorb (replicate 200 0) data in spec_finalize st tail)"

section \<open>Little-endian words and bytes\<close>

lemma u64_of_bytes_Cons: "u64_of_bytes (b # bs) = ucast b OR push_bit 8 (u64_of_bytes bs)"
  by (simp add: u64_of_bytes_def)

lemma u64_of_bytes_Nil: "u64_of_bytes [] = 0"
  by (simp add: u64_of_bytes_def)

lemma bit_u64_of_bytes:
  "bit (u64_of_bytes bs) n \<longleftrightarrow> n < 64 \<and> n div 8 < length bs \<and> bit (bs ! (n div 8)) (n mod 8)"
proof (induction bs arbitrary: n)
  case Nil
  then show ?case by (simp add: u64_of_bytes_Nil)
next
  case (Cons b bs)
  show ?case
  proof (cases "n < 8")
    case True
    then show ?thesis
      by (simp add: u64_of_bytes_Cons bit_or_iff bit_ucast_iff bit_push_bit_iff)
  next
    case False
    then have n: "8 \<le> n" by simp
    then have d: "n div 8 = Suc ((n - 8) div 8)" and m: "n mod 8 = (n - 8) mod 8"
      by (simp_all add: le_div_geq le_mod_geq)
    have nb: "\<not> bit b n" using n bit_imp_le_length[of b n] by auto
    show ?thesis
      using n nb by (auto simp: u64_of_bytes_Cons bit_or_iff bit_ucast_iff bit_push_bit_iff Cons.IH d m)
  qed
qed

lemma byte_of_u64_of_bytes:
  assumes "k < length bs" "length bs \<le> 8"
  shows "(ucast (drop_bit (8 * k) (u64_of_bytes bs)) :: byte) = bs ! k"
proof (rule bit_word_eqI)
  fix m assume "m < LENGTH(8)"
  then have m: "m < 8" by simp
  have "8 * k + m < 64" using assms m by simp
  moreover have "(8 * k + m) div 8 = k" "(8 * k + m) mod 8 = m" using m by simp_all
  ultimately show "bit (ucast (drop_bit (8 * k) (u64_of_bytes bs)) :: byte) m = bit (bs ! k) m"
    using assms m by (simp add: bit_ucast_iff bit_drop_bit_eq bit_u64_of_bytes)
qed

lemma bytes_of_u64_of_bytes: "length bs = 8 \<Longrightarrow> bytes_of_u64 (u64_of_bytes bs) = bs"
  by (rule nth_equalityI) (simp_all add: bytes_of_u64_def byte_of_u64_of_bytes)

lemma bytes_of_u64_xor:
  "bytes_of_u64 (a XOR b) = map2 (XOR) (bytes_of_u64 a) (bytes_of_u64 b)"
  apply (rule nth_equalityI)
   apply (simp add: bytes_of_u64_def)
  apply (simp add: bytes_of_u64_def)
  apply (rule bit_word_eqI)
  apply (simp add: bit_ucast_iff bit_drop_bit_eq bit_xor_iff)
  done

lemma length_bytes_of_u64: "length (bytes_of_u64 w) = 8"
  by (simp add: bytes_of_u64_def)

lemma take8: "8 \<le> length b \<Longrightarrow> take 8 b = [b ! 0, b ! 1, b ! 2, b ! 3, b ! 4, b ! 5, b ! 6, b ! 7]"
  by (auto simp: eval_nat_numeral Suc_le_length_iff)

lemma le64_eq: "8 \<le> length b \<Longrightarrow> le64 b = Some (u64_of_bytes (take 8 b))"
  by (simp add: take8 le64_def go_index_def u64_of_bytes_def push_bit_or)


section \<open>xorIn is the byte-for-byte XOR\<close>

lemma length_xor_range [simp]: "length (xor_range lo hi st data) = length st"
  by (simp add: xor_range_def)

lemma nth_xor_range:
  "j < length st \<Longrightarrow>
   xor_range lo hi st data ! j = (if lo \<le> j \<and> j < hi then st ! j XOR data ! j else st ! j)"
  by (simp add: xor_range_def)

lemma xor_range_empty: "hi \<le> lo \<Longrightarrow> xor_range lo hi st data = st"
  by (rule nth_equalityI) (auto simp: nth_xor_range)

lemma xor_range_join:
  "lo \<le> mid \<Longrightarrow> mid \<le> hi \<Longrightarrow>
   xor_range mid hi (xor_range lo mid st data) data = xor_range lo hi st data"
  by (rule nth_equalityI) (auto simp: nth_xor_range)

lemma xor_at_eq:
  "i < length st \<Longrightarrow> xor_at st i (data ! i) = Some (xor_range i (Suc i) st data)"
  unfolding xor_at_def
  by (auto intro!: nth_equalityI simp: nth_xor_range nth_list_update)

lemma xorIn_bytes_eq:
  "i \<le> length data \<Longrightarrow> length data \<le> length st \<Longrightarrow>
   xorIn_bytes st data i = Some (xor_range i (length data) st data)"
proof (induction st data i rule: xorIn_bytes.induct)
  case (1 st data i)
  show ?case
  proof (cases "i < length data")
    case True
    let ?st' = "xor_range i (Suc i) st data"
    have a: "xor_at st i (data ! i) = Some ?st'"
      using True "1.prems" by (simp add: xor_at_eq)
    have g: "go_index data i = Some (data ! i)"
      using True by (simp add: go_index_def)
    have "xorIn_bytes ?st' data (i + 1) = Some (xor_range (i + 1) (length data) ?st' data)"
      using True "1.prems" by (intro "1.IH"[OF True g a]) simp_all
    also have "xor_range (i + 1) (length data) ?st' data = xor_range i (length data) st data"
      using True by (simp add: xor_range_join)
    finally show ?thesis
      using True a g by (subst xorIn_bytes.simps) simp
  next
    case False
    with "1.prems" show ?thesis
      by (subst xorIn_bytes.simps) (simp add: xor_range_empty)
  qed
qed

lemma storeU64_eq:
  assumes st: "length st = 200" and i: "i < 25" and d: "8 * i + 8 \<le> length data"
  shows "storeU64 st i (u64_of_bytes (take 8 (drop (8 * i) st))
                        XOR u64_of_bytes (take 8 (drop (8 * i) data)))
         = Some (xor_range (8 * i) (8 * i + 8) st data)"
proof -
  have b: "bytes_of_u64 (u64_of_bytes (take 8 (drop (8 * i) st))
                         XOR u64_of_bytes (take 8 (drop (8 * i) data)))
           = map2 (XOR) (take 8 (drop (8 * i) st)) (take 8 (drop (8 * i) data))"
    using st i d by (simp add: bytes_of_u64_xor bytes_of_u64_of_bytes)
  have "take (8 * i) st @ map2 (XOR) (take 8 (drop (8 * i) st)) (take 8 (drop (8 * i) data))
          @ drop (8 * i + 8) st = xor_range (8 * i) (8 * i + 8) st data" (is "?l = ?r")
  proof (rule nth_equalityI)
    show "length ?l = length ?r" using st i d by simp
  next
    fix j assume "j < length ?l"
    then have j: "j < 200" using st i d by simp
    consider "j < 8 * i" | "8 * i \<le> j" "j < 8 * i + 8" | "8 * i + 8 \<le> j" by linarith
    then show "?l ! j = ?r ! j"
    proof cases
      case 1
      then show ?thesis using st j by (simp add: nth_append nth_xor_range)
    next
      case 2
      then obtain k where k: "j = 8 * i + k" "k < 8"
        by (metis add_less_cancel_left le_Suc_ex)
      show ?thesis using st i d k by (simp add: nth_append nth_xor_range)
    next
      case 3
      then obtain k where k: "j = 8 * i + 8 + k"
        using le_Suc_ex by blast
      show ?thesis using st i d j k by (simp add: nth_append nth_xor_range add.assoc)
    qed
  qed
  then show ?thesis
    using i by (simp add: storeU64_def b)
qed

lemma xorIn_words_eq:
  "length st = 200 \<Longrightarrow> i \<le> n \<Longrightarrow> n \<le> 25 \<Longrightarrow> 8 * n \<le> length data \<Longrightarrow>
   xorIn_words st data n i = Some (xor_range (8 * i) (8 * n) st data)"
proof (induction st data n i rule: xorIn_words.induct)
  case (1 st data n i)
  show ?case
  proof (cases "i < n")
    case True
    let ?d = "drop (8 * i) data"
    let ?v = "u64_of_bytes (take 8 ?d)"
    let ?w = "u64_of_bytes (take 8 (drop (8 * i) st))"
    let ?st' = "xor_range (8 * i) (8 * i + 8) st data"
    have i25: "i < 25" and len: "8 * i + 8 \<le> length data"
      using True "1.prems" by simp_all
    have s: "go_slice data (8 * i) (length data) = Some ?d"
      using len by (simp add: go_slice_def)
    have v: "le64 ?d = Some ?v"
      using len by (simp add: le64_eq)
    have w: "loadU64 st i = Some ?w"
      using i25 by (simp add: loadU64_def)
    have u: "storeU64 st i (?w XOR ?v) = Some ?st'"
      using "1.prems" i25 len by (simp add: storeU64_eq)
    have "xorIn_words ?st' data n (i + 1) = Some (xor_range (8 * (i + 1)) (8 * n) ?st' data)"
      using True "1.prems" by (intro "1.IH"[OF True s v w u]) simp_all
    also have "xor_range (8 * (i + 1)) (8 * n) ?st' data = xor_range (8 * i) (8 * n) st data"
      using True xor_range_join[of "8 * i" "8 * i + 8" "8 * n" st data] by (simp add: add.commute)
    finally show ?thesis
      using True s v w u by (subst xorIn_words.simps) simp
  next
    case False
    with "1.prems" show ?thesis
      by (subst xorIn_words.simps) (simp add: xor_range_empty)
  qed
qed

lemma xorIn_eq:
  assumes "length st = 200" "length data \<le> 200"
  shows "xorIn st data = Some (xor_bytes st data)"
proof -
  let ?n = "length data div 8"
  have w: "xorIn_words st data ?n 0 = Some (xor_range 0 (8 * ?n) st data)"
    using assms xorIn_words_eq[of st 0 ?n data] by simp
  have b: "xorIn_bytes (xor_range 0 (8 * ?n) st data) data (8 * ?n)
           = Some (xor_range (8 * ?n) (length data) (xor_range 0 (8 * ?n) st data) data)"
    using assms by (intro xorIn_bytes_eq) simp_all
  show ?thesis
    using w b
    by (simp add: xorIn_def xor_bytes_def drop_bit_eq_div push_bit_eq_mult mult.commute
        xor_range_join)
qed

section \<open>The loops and the finalisation against the specification\<close>

lemma length_fold_keccak_round:
  "length a = 25 \<Longrightarrow> length (fold keccak_round rs a) = 25"
  by (induction rs arbitrary: a) (simp_all add: keccak_round_def iota_def chi_def)

lemma length_bytes_of_lanes: "length (bytes_of_lanes a) = 8 * length a"
  by (induction a) (simp_all add: bytes_of_lanes_def length_bytes_of_u64)

lemma length_keccakF1600 [simp]: "length (keccakF1600 st) = 200"
  by (simp add: keccakF1600_def length_bytes_of_lanes keccak_f_def
      length_fold_keccak_round lanes_of_bytes_def)

lemma length_xor_bytes [simp]: "length (xor_bytes st data) = length st"
  by (simp add: xor_bytes_def)

lemma spec_absorb_short: "length data < rate \<Longrightarrow> spec_absorb st data = (st, data)"
  by (subst spec_absorb.simps) simp

lemma spec_absorb_step:
  "rate \<le> length data \<Longrightarrow>
   spec_absorb st data
     = spec_absorb (keccakF1600 (xor_bytes st (take rate data))) (drop rate data)"
  by (subst spec_absorb.simps) simp

lemma length_fst_spec_absorb:
  "length st = 200 \<Longrightarrow> length (fst (spec_absorb st data)) = 200"
proof (induction st data rule: spec_absorb.induct)
  case (1 st data)
  show ?case
  proof (cases "rate \<le> length data")
    case True
    then show ?thesis using "1.IH" by (simp add: spec_absorb_step)
  next
    case False
    then show ?thesis using "1.prems" by (simp add: spec_absorb_short)
  qed
qed

lemma length_snd_spec_absorb: "length (snd (spec_absorb st data)) < rate"
proof (induction st data rule: spec_absorb.induct)
  case (1 st data)
  show ?case
  proof (cases "rate \<le> length data")
    case True
    then show ?thesis using "1.IH" by (simp add: spec_absorb_step)
  next
    case False
    then show ?thesis by (simp add: spec_absorb_short)
  qed
qed

lemma spec_absorb_append:
  "spec_absorb st (d1 @ d2) = (case spec_absorb st d1 of (st', t) \<Rightarrow> spec_absorb st' (t @ d2))"
proof (induction st d1 rule: spec_absorb.induct)
  case (1 st d1)
  show ?case
  proof (cases "rate \<le> length d1")
    case True
    then have "spec_absorb st (d1 @ d2)
        = spec_absorb (keccakF1600 (xor_bytes st (take rate d1))) (drop rate d1 @ d2)"
      by (simp add: spec_absorb_step)
    then show ?thesis using True "1.IH" by (simp add: spec_absorb_step)
  next
    case False
    then show ?thesis by (simp add: spec_absorb_short)
  qed
qed

lemma absorb_loop_eq:
  "length st = 200 \<Longrightarrow> absorb_loop st data = Some (spec_absorb st data)"
proof (induction st data rule: spec_absorb.induct)
  case (1 st data)
  show ?case
  proof (cases "rate \<le> length data")
    case True
    let ?blk = "take rate data"
    have s1: "go_slice data 0 rate = Some ?blk"
      using True by (simp add: go_slice_def)
    have x: "xorIn st ?blk = Some (xor_bytes st ?blk)"
      using "1.prems" by (intro xorIn_eq) (simp_all add: rate_def)
    have s2: "go_slice data rate (length data) = Some (drop rate data)"
      using True by (simp add: go_slice_def)
    have "absorb_loop (keccakF1600 (xor_bytes st ?blk)) (drop rate data)
          = Some (spec_absorb (keccakF1600 (xor_bytes st ?blk)) (drop rate data))"
      using True by (intro "1.IH") simp_all
    then show ?thesis
      using True s1 x s2 by (subst absorb_loop.simps) (simp add: spec_absorb_step)
  next
    case False
    then show ?thesis
      by (subst absorb_loop.simps) (simp add: spec_absorb_short)
  qed
qed

lemma finalize_eq:
  assumes "length st = 200" and "length tail < rate"
  shows "do { s \<leftarrow> xorIn st tail;
              s \<leftarrow> xor_at s (length tail) 0x01;
              s \<leftarrow> xor_at s (rate - 1) 0x80;
              let s = keccakF1600 s;
              go_slice s 0 32 } = Some (spec_finalize st tail)"
proof -
  have x: "xorIn st tail = Some (xor_bytes st tail)"
    using assms by (intro xorIn_eq) (simp_all add: rate_def)
  show ?thesis
    using assms
    by (simp add: x xor_at_def spec_finalize_def spec_pad_def Let_def go_slice_def rate_def)
qed

lemma Sum256_eq: "Sum256 data = Some (spec_Sum256 data)"
proof -
  obtain st tail where a: "spec_absorb (replicate 200 0) data = (st, tail)"
    by (cases "spec_absorb (replicate 200 0) data")
  have l: "length st = 200" "length tail < rate"
    using length_fst_spec_absorb[of "replicate 200 0" data]
      length_snd_spec_absorb[of "replicate 200 0" data] a by simp_all
  have "absorb_loop (replicate 200 0) data = Some (st, tail)"
    using a by (simp add: absorb_loop_eq)
  then show ?thesis
    using finalize_eq[OF l] by (simp add: Sum256_def spec_Sum256_def a)
qed

lemma inv_HasherD:
  assumes "inv_Hasher h"
  shows "length (state h) = 200" and "length (buf h) = rate"
    and "nat (absorbed h) < rate" and "0 \<le> absorbed h"
  using assms by (auto simp: inv_Hasher_def wf_Hasher_def)

lemma length_pending: "inv_Hasher h \<Longrightarrow> length (pending h) = nat (absorbed h)"
  using inv_HasherD(2,3)[of h] by (simp add: pending_def)

lemma Hasher_Sum256_eq:
  assumes "inv_Hasher h"
  shows "Hasher_Sum256 h = Some (h, spec_finalize (state h) (pending h))"
proof -
  let ?a = "nat (absorbed h)"
  let ?s0 = "xor_bytes (state h) (pending h)"
  let ?s1 = "?s0[?a := ?s0 ! ?a XOR 0x01]"
  let ?s2 = "?s1[rate - 1 := ?s1 ! (rate - 1) XOR 0x80]"
  note d = inv_HasherD[OF assms]
  have p: "length (pending h) = ?a"
    by (rule length_pending[OF assms])
  have n: "\<not> absorbed h < 0"
    using d(4) by simp
  have s: "go_slice (buf h) 0 ?a = Some (pending h)"
    using d(2,3) by (simp add: go_slice_def pending_def)
  have x: "xorIn (state h) (pending h) = Some ?s0"
    using d(1,3) p by (intro xorIn_eq) (simp_all add: rate_def)
  have a1: "xor_at ?s0 ?a 0x01 = Some ?s1"
    using d(1,3) by (simp add: xor_at_def rate_def)
  have a2: "xor_at ?s1 (rate - 1) 0x80 = Some ?s2"
    using d(1) by (simp add: xor_at_def rate_def)
  have a3: "go_slice (keccakF1600 ?s2) 0 32 = Some (take 32 (keccakF1600 ?s2))"
    by (simp add: go_slice_def)
  have f: "spec_finalize (state h) (pending h) = take 32 (keccakF1600 ?s2)"
    by (simp add: spec_finalize_def spec_pad_def Let_def p)
  show ?thesis
    unfolding Hasher_Sum256_def Let_def f
    by (simp only: n if_False s x a1 a2 a3 Option.bind.simps)
qed

section \<open>Write keeps the sponge state and the pending bytes of the stream\<close>

lemma go_slice_suffix: "n \<le> length p \<Longrightarrow> go_slice p n (length p) = Some (drop n p)"
  by (simp add: go_slice_def)

lemma Write_topup_zero:
  "\<not> absorbed h > 0 \<Longrightarrow> Write_topup h p = Some (h, p)"
  by (simp add: Write_topup_def)

lemma Write_topup_fill:
  assumes i: "inv_Hasher h" and a: "0 < absorbed h"
    and f: "rate \<le> nat (absorbed h) + length p"
  shows "Write_topup h p =
           Some (h\<lparr>buf := pending h @ take (rate - nat (absorbed h)) p,
                   absorbed := 0,
                   state := keccakF1600 (xor_bytes (state h)
                              (pending h @ take (rate - nat (absorbed h)) p))\<rparr>,
                 drop (rate - nat (absorbed h)) p)"
proof -
  let ?a = "nat (absorbed h)"
  let ?n = "rate - ?a"
  let ?b = "pending h @ take ?n p"
  note d = inv_HasherD[OF i]
  have w: "go_slice (buf h) ?a rate = Some (take ?n (drop ?a (buf h)))"
    using d(2,3) by (simp add: go_slice_def)
  have m: "min (length (take ?n (drop ?a (buf h)))) (length p) = ?n"
    using d(2,3) f by simp
  have b: "take ?a (buf h) @ take ?n p @ drop (?a + ?n) (buf h) = ?b"
    using d(2,3) by (simp add: pending_def)
  have c: "go_copy (buf h) ?a rate p = Some (?b, ?n)"
    unfolding go_copy_def Let_def by (simp only: w m b Option.bind.simps)
  have s: "go_slice p ?n (length p) = Some (drop ?n p)"
    using f d(3) by (intro go_slice_suffix) simp
  have e: "absorbed h + int ?n = int rate"
    using d(3,4) by simp
  have x: "xorIn (state h) ?b = Some (xor_bytes (state h) ?b)"
    using d(1,3) f length_pending[OF i] by (intro xorIn_eq) (simp_all add: rate_def)
  show ?thesis
    using a by (simp add: Write_topup_def c s e x)
qed

lemma Write_topup_partial:
  assumes i: "inv_Hasher h" and a: "0 < absorbed h"
    and f: "nat (absorbed h) + length p < rate"
  shows "Write_topup h p =
           Some (h\<lparr>buf := pending h @ p @ drop (nat (absorbed h) + length p) (buf h),
                   absorbed := absorbed h + int (length p)\<rparr>, [])"
proof -
  let ?a = "nat (absorbed h)"
  let ?n = "length p"
  let ?b = "pending h @ p @ drop (?a + ?n) (buf h)"
  note d = inv_HasherD[OF i]
  have w: "go_slice (buf h) ?a rate = Some (take (rate - ?a) (drop ?a (buf h)))"
    using d(2,3) by (simp add: go_slice_def)
  have m: "min (length (take (rate - ?a) (drop ?a (buf h)))) (length p) = ?n"
    using d(2,3) f by simp
  have b: "take ?a (buf h) @ take ?n p @ drop (?a + ?n) (buf h) = ?b"
    by (simp add: pending_def)
  have c: "go_copy (buf h) ?a rate p = Some (?b, ?n)"
    unfolding go_copy_def Let_def by (simp only: w m b Option.bind.simps)
  have s: "go_slice p ?n (length p) = Some []"
    by (simp add: go_slice_def)
  have e: "absorbed h + int ?n \<noteq> int rate"
    using d(3,4) f by simp
  show ?thesis
    using a by (simp add: Write_topup_def c s e)
qed

lemma Write_rest:
  assumes l: "length (state h1) = 200" "length (buf h1) = rate" and z: "absorbed h1 = 0"
  shows "\<exists>h'. (do {
             (st, p) \<leftarrow> absorb_loop (state h1) p1;
             let h = h1\<lparr>state := st\<rparr>;
             if length p > 0 then do {
               (b, n) \<leftarrow> go_copy (buf h) 0 (length (buf h)) p;
               Some (h\<lparr>buf := b, absorbed := int n\<rparr>)
             } else Some h
           }) = Some h' \<and> inv_Hasher h' \<and>
           (state h', pending h') = spec_absorb (state h1) p1"
proof -
  obtain st t where sa: "spec_absorb (state h1) p1 = (st, t)"
    by (cases "spec_absorb (state h1) p1")
  have st: "length st = 200" and t: "length t < rate"
    using length_fst_spec_absorb[OF l(1), of p1] length_snd_spec_absorb[of "state h1" p1] sa
    by simp_all
  have al: "absorb_loop (state h1) p1 = Some (st, t)"
    using l(1) sa by (simp add: absorb_loop_eq)
  show ?thesis
  proof (cases "t = []")
    case True
    then show ?thesis
      using l z st by (simp add: al sa inv_Hasher_def wf_Hasher_def pending_def rate_def)
  next
    case False
    have c: "go_copy (buf h1) 0 rate t = Some (t @ drop (length t) (buf h1), length t)"
      using l(2) t by (simp add: go_copy_def go_slice_def Let_def)
    show ?thesis
      using False l t st
      by (simp add: al sa c inv_Hasher_def wf_Hasher_def pending_def)
  qed
qed

lemma Write_spec:
  assumes i: "inv_Hasher h"
  shows "\<exists>h'. Write h p = Some h' \<and> inv_Hasher h' \<and>
           (state h', pending h') = spec_absorb (state h) (pending h @ p)"
proof -
  let ?a = "nat (absorbed h)"
  note d = inv_HasherD[OF i]
  note lp = length_pending[OF i]
  consider (zero) "\<not> 0 < absorbed h"
    | (fill) "0 < absorbed h" "rate \<le> ?a + length p"
    | (partial) "0 < absorbed h" "?a + length p < rate"
    by linarith
  then show ?thesis
  proof cases
    case zero
    then have z: "absorbed h = 0" using d(4) by simp
    have pe: "pending h = []" by (simp add: pending_def z)
    show ?thesis
      using Write_rest[OF d(1,2) z, of p]
      by (simp add: Write_def Write_topup_zero[OF zero] pe)
  next
    case fill
    let ?h1 = "h\<lparr>buf := pending h @ take (rate - ?a) p, absorbed := 0,
                 state := keccakF1600 (xor_bytes (state h) (pending h @ take (rate - ?a) p))\<rparr>"
    have l1: "length (state ?h1) = 200" "length (buf ?h1) = rate" "absorbed ?h1 = 0"
      using d(3) fill(2) lp by simp_all
    have u: "spec_absorb (state h) (pending h @ p) = spec_absorb (state ?h1) (drop (rate - ?a) p)"
      using fill(2) lp d(3) by (simp add: spec_absorb_step[of "pending h @ p"])
    show ?thesis
      using Write_rest[OF l1, of "drop (rate - ?a) p"]
      unfolding u Write_def Write_topup_fill[OF i fill]
      by simp
  next
    case partial
    let ?h1 = "h\<lparr>buf := pending h @ p @ drop (?a + length p) (buf h),
                 absorbed := absorbed h + int (length p)\<rparr>"
    have al: "absorb_loop (state h) [] = Some (state h, [])"
      by (subst absorb_loop.simps) (simp add: rate_def)
    have i1: "inv_Hasher ?h1"
      using d partial lp by (auto simp: inv_Hasher_def wf_Hasher_def)
    have n1: "nat (absorbed h + int (length p)) = ?a + length p"
      using d(4) by simp
    have p1: "pending ?h1 = pending h @ p"
      using lp by (simp add: pending_def n1)
    have sa: "spec_absorb (state h) (pending h @ p) = (state h, pending h @ p)"
      using partial(2) lp by (simp add: spec_absorb_short)
    have "Write h p = Some ?h1"
      by (simp add: Write_def Write_topup_partial[OF i partial] al)
    then show ?thesis
      using i1 p1 sa by simp
  qed
qed

section \<open>Sequences of calls\<close>

lemma length_snd_spec_absorb_mod: "length (snd (spec_absorb st data)) = length data mod rate"
proof (induction st data rule: spec_absorb.induct)
  case (1 st data)
  show ?case
  proof (cases "rate \<le> length data")
    case True
    then show ?thesis using "1.IH" by (simp add: spec_absorb_step le_mod_geq)
  next
    case False
    then show ?thesis by (simp add: spec_absorb_short)
  qed
qed

lemma length_spec_finalize: "length (spec_finalize st tail) = 32"
  by (simp add: spec_finalize_def)

lemma inv_zero_Hasher: "inv_Hasher zero_Hasher"
  by (simp add: inv_Hasher_def wf_Hasher_def zero_Hasher_def rate_def)

lemma inv_Reset: "wf_Hasher h \<Longrightarrow> inv_Hasher (Reset h)"
  by (simp add: inv_Hasher_def wf_Hasher_def Reset_def rate_def)

lemma reachable_inv: "reachable h \<Longrightarrow> inv_Hasher h"
proof (induction rule: reachable.induct)
  case reachable_zero
  show ?case by (rule inv_zero_Hasher)
next
  case (reachable_Reset h)
  then show ?case by (intro inv_Reset) (simp add: inv_Hasher_def)
next
  case (reachable_Write h p h')
  then show ?case using Write_spec[of h p] by auto
next
  case (reachable_Sum256 h h' d)
  then show ?case using Hasher_Sum256_eq[of h] by auto
qed

lemma Write_empty: 
  assumes i: "inv_Hasher h"
  shows "Write h [] = Some h"
proof -
  have al: "absorb_loop (state h) [] = Some (state h, [])"
    by (subst absorb_loop.simps) (simp add: rate_def)
  show ?thesis
  proof (cases "0 < absorbed h")
    case True
    have f: "nat (absorbed h) + length ([] :: byte list) < rate"
      using inv_HasherD(3)[OF i] by simp
    show ?thesis
      by (simp add: Write_def Write_topup_partial[OF i True f] al pending_def)
  next
    case False
    then show ?thesis
      by (simp add: Write_def Write_topup_zero al)
  qed
qed

lemma run_append:
  "run h (ops1 @ ops2) = do {
     (h1, ds1) \<leftarrow> run h ops1;
     (h2, ds2) \<leftarrow> run h1 ops2;
     Some (h2, ds1 @ ds2)
   }"
proof (induction ops1 arbitrary: h)
  case Nil
  show ?case by (cases "run h ops2") auto
next
  case (Cons o1 ops1)
  show ?case
  proof (cases o1)
    case (OpWrite p)
    then show ?thesis by (cases "Write h p") (simp_all add: Cons.IH)
  next
    case OpSum256
    then show ?thesis
      by (cases "Hasher_Sum256 h")
         (auto simp: Cons.IH split: Option.bind_split prod.splits)
  qed
qed

lemma run_writes:
  "inv_Hasher h \<Longrightarrow>
   \<exists>h'. run h (map OpWrite cs) = Some (h', []) \<and> inv_Hasher h' \<and>
        (state h', pending h') = spec_absorb (state h) (pending h @ concat cs)"
proof (induction cs arbitrary: h)
  case Nil
  then show ?case
    using length_pending[of h] inv_HasherD(3)[of h] by (simp add: spec_absorb_short)
next
  case (Cons c cs)
  obtain h1 where w: "Write h c = Some h1" and i1: "inv_Hasher h1"
    and s1: "(state h1, pending h1) = spec_absorb (state h) (pending h @ c)"
    using Write_spec[OF Cons.prems, of c] by blast
  obtain h' where r: "run h1 (map OpWrite cs) = Some (h', [])" and i': "inv_Hasher h'"
    and s': "(state h', pending h') = spec_absorb (state h1) (pending h1 @ concat cs)"
    using Cons.IH[OF i1] by blast
  have "spec_absorb (state h) (pending h @ concat (c # cs))
        = spec_absorb (state h1) (pending h1 @ concat cs)"
    using spec_absorb_append[of "state h" "pending h @ c" "concat cs"] s1[symmetric] by simp
  then show ?case
    using w r i' s' by simp
qed

lemma run_sim:
  "inv_Hasher h1 \<Longrightarrow> inv_Hasher h2 \<Longrightarrow> state h1 = state h2 \<Longrightarrow> pending h1 = pending h2 \<Longrightarrow>
   map_option snd (run h1 ops) = map_option snd (run h2 ops)"
proof (induction ops arbitrary: h1 h2)
  case Nil
  show ?case by simp
next
  case (Cons o1 ops)
  show ?case
  proof (cases o1)
    case (OpWrite p)
    obtain h1' where w1: "Write h1 p = Some h1'" and i1: "inv_Hasher h1'"
      and s1: "(state h1', pending h1') = spec_absorb (state h1) (pending h1 @ p)"
      using Write_spec[OF Cons.prems(1), of p] by blast
    obtain h2' where w2: "Write h2 p = Some h2'" and i2: "inv_Hasher h2'"
      and s2: "(state h2', pending h2') = spec_absorb (state h2) (pending h2 @ p)"
      using Write_spec[OF Cons.prems(2), of p] by blast
    have "state h1' = state h2'" "pending h1' = pending h2'"
      using s1 s2 Cons.prems(3,4) by (metis prod.inject)+
    then have "map_option snd (run h1' ops) = map_option snd (run h2' ops)"
      using i1 i2 by (intro Cons.IH)
    then show ?thesis
      by (simp add: OpWrite w1 w2)
  next
    case OpSum256
    have e: "map_option snd (run h1 ops) = map_option snd (run h2 ops)"
      using Cons.prems by (intro Cons.IH)
    show ?thesis
      using e Cons.prems(3,4)
      by (cases "run h1 ops"; cases "run h2 ops")
         (auto simp: OpSum256 Hasher_Sum256_eq[OF Cons.prems(1)] Hasher_Sum256_eq[OF Cons.prems(2)])
  qed
qed

lemma spec_pad_last:
  assumes "length s = 200"
  shows "spec_pad s (rate - 1) = s[rate - 1 := s ! (rate - 1) XOR 0x81]"
proof -
  have "(s ! 135 XOR 1) XOR 128 = s ! 135 XOR 129"
    by (simp add: xor.assoc)
  then show ?thesis
    using assms by (simp add: spec_pad_def rate_def Let_def)
qed

section \<open>Evaluating the permutation\<close>

text \<open>
  The phases of a round on an explicit list of 25 lanes, and the rotation by shifts:
  with these the simplifier computes a round on numerals.
\<close>

lemma upt_5: "[0..<5] = [0, 1, 2, 3, 4]"
  by (simp add: upt_rec)

lemma upt_25: "[0..<25] = [0, 1, 2, 3, 4, 5, 6, 7, 8, 9, 10, 11, 12, 13, 14, 15, 16, 17, 18, 19, 20, 21, 22, 23, 24]"
  by (simp add: upt_rec)

lemma theta_unrolled:
  "theta [a0, a1, a2, a3, a4, a5, a6, a7, a8, a9, a10, a11, a12, a13, a14, a15, a16, a17, a18, a19, a20, a21, a22, a23, a24] =
  [a0 XOR ((a4 XOR a9 XOR a14 XOR a19 XOR a24) XOR rotl (a1 XOR a6 XOR a11 XOR a16 XOR a21) 1),
   a1 XOR ((a0 XOR a5 XOR a10 XOR a15 XOR a20) XOR rotl (a2 XOR a7 XOR a12 XOR a17 XOR a22) 1),
   a2 XOR ((a1 XOR a6 XOR a11 XOR a16 XOR a21) XOR rotl (a3 XOR a8 XOR a13 XOR a18 XOR a23) 1),
   a3 XOR ((a2 XOR a7 XOR a12 XOR a17 XOR a22) XOR rotl (a4 XOR a9 XOR a14 XOR a19 XOR a24) 1),
   a4 XOR ((a3 XOR a8 XOR a13 XOR a18 XOR a23) XOR rotl (a0 XOR a5 XOR a10 XOR a15 XOR a20) 1),
   a5 XOR ((a4 XOR a9 XOR a14 XOR a19 XOR a24) XOR rotl (a1 XOR a6 XOR a11 XOR a16 XOR a21) 1),
   a6 XOR ((a0 XOR a5 XOR a10 XOR a15 XOR a20) XOR rotl (a2 XOR a7 XOR a12 XOR a17 XOR a22) 1),
   a7 XOR ((a1 XOR a6 XOR a11 XOR a16 XOR a21) XOR rotl (a3 XOR a8 XOR a13 XOR a18 XOR a23) 1),
   a8 XOR ((a2 XOR a7 XOR a12 XOR a17 XOR a22) XOR rotl (a4 XOR a9 XOR a14 XOR a19 XOR a24) 1),
   a9 XOR ((a3 XOR a8 XOR a13 XOR a18 XOR a23) XOR rotl (a0 XOR a5 XOR a10 XOR a15 XOR a20) 1),
   a10 XOR ((a4 XOR a9 XOR a14 XOR a19 XOR a24) XOR rotl (a1 XOR a6 XOR a11 XOR a16 XOR a21) 1),
   a11 XOR ((a0 XOR a5 XOR a10 XOR a15 XOR a20) XOR rotl (a2 XOR a7 XOR a12 XOR a17 XOR a22) 1),
   a12 XOR ((a1 XOR a6 XOR a11 XOR a16 XOR a21) XOR rotl (a3 XOR a8 XOR a13 XOR a18 XOR a23) 1),
   a13 XOR ((a2 XOR a7 XOR a12 XOR a17 XOR a22) XOR rotl (a4 XOR a9 XOR a14 XOR a19 XOR a24) 1),
   a14 XOR ((a3 XOR a8 XOR a13 XOR a18 XOR a23) XOR rotl (a0 XOR a5 XOR a10 XOR a15 XOR a20) 1),
   a15 XOR ((a4 XOR a9 XOR a14 XOR a19 XOR a24) XOR rotl (a1 XOR a6 XOR a11 XOR a16 XOR a21) 1),
   a16 XOR ((a0 XOR a5 XOR a10 XOR a15 XOR a20) XOR rotl (a2 XOR a7 XOR a12 XOR a17 XOR a22) 1),
   a17 XOR ((a1 XOR a6 XOR a11 XOR a16 XOR a21) XOR rotl (a3 XOR a8 XOR a13 XOR a18 XOR a23) 1),
   a18 XOR ((a2 XOR a7 XOR a12 XOR a17 XOR a22) XOR rotl (a4 XOR a9 XOR a14 XOR a19 XOR a24) 1),
   a19 XOR ((a3 XOR a8 XOR a13 XOR a18 XOR a23) XOR rotl (a0 XOR a5 XOR a10 XOR a15 XOR a20) 1),
   a20 XOR ((a4 XOR a9 XOR a14 XOR a19 XOR a24) XOR rotl (a1 XOR a6 XOR a11 XOR a16 XOR a21) 1),
   a21 XOR ((a0 XOR a5 XOR a10 XOR a15 XOR a20) XOR rotl (a2 XOR a7 XOR a12 XOR a17 XOR a22) 1),
   a22 XOR ((a1 XOR a6 XOR a11 XOR a16 XOR a21) XOR rotl (a3 XOR a8 XOR a13 XOR a18 XOR a23) 1),
   a23 XOR ((a2 XOR a7 XOR a12 XOR a17 XOR a22) XOR rotl (a4 XOR a9 XOR a14 XOR a19 XOR a24) 1),
   a24 XOR ((a3 XOR a8 XOR a13 XOR a18 XOR a23) XOR rotl (a0 XOR a5 XOR a10 XOR a15 XOR a20) 1)]"
  unfolding theta_def Let_def upt_5 upt_25 list.map
  by simp

lemma rho_pi_unrolled:
  "rho_pi [a0, a1, a2, a3, a4, a5, a6, a7, a8, a9, a10, a11, a12, a13, a14, a15, a16, a17, a18, a19, a20, a21, a22, a23, a24] =
  [rotl a0 0,
   rotl a6 44,
   rotl a12 43,
   rotl a18 21,
   rotl a24 14,
   rotl a3 28,
   rotl a9 20,
   rotl a10 3,
   rotl a16 45,
   rotl a22 61,
   rotl a1 1,
   rotl a7 6,
   rotl a13 25,
   rotl a19 8,
   rotl a20 18,
   rotl a4 27,
   rotl a5 36,
   rotl a11 10,
   rotl a17 15,
   rotl a23 56,
   rotl a2 62,
   rotl a8 55,
   rotl a14 39,
   rotl a15 41,
   rotl a21 2]"
  unfolding rho_pi_def Let_def upt_25 list.map
  by (simp add: rho_offsets_def)

lemma chi_unrolled:
  "chi [a0, a1, a2, a3, a4, a5, a6, a7, a8, a9, a10, a11, a12, a13, a14, a15, a16, a17, a18, a19, a20, a21, a22, a23, a24] =
  [a0 XOR (NOT a1 AND a2),
   a1 XOR (NOT a2 AND a3),
   a2 XOR (NOT a3 AND a4),
   a3 XOR (NOT a4 AND a0),
   a4 XOR (NOT a0 AND a1),
   a5 XOR (NOT a6 AND a7),
   a6 XOR (NOT a7 AND a8),
   a7 XOR (NOT a8 AND a9),
   a8 XOR (NOT a9 AND a5),
   a9 XOR (NOT a5 AND a6),
   a10 XOR (NOT a11 AND a12),
   a11 XOR (NOT a12 AND a13),
   a12 XOR (NOT a13 AND a14),
   a13 XOR (NOT a14 AND a10),
   a14 XOR (NOT a10 AND a11),
   a15 XOR (NOT a16 AND a17),
   a16 XOR (NOT a17 AND a18),
   a17 XOR (NOT a18 AND a19),
   a18 XOR (NOT a19 AND a15),
   a19 XOR (NOT a15 AND a16),
   a20 XOR (NOT a21 AND a22),
   a21 XOR (NOT a22 AND a23),
   a22 XOR (NOT a23 AND a24),
   a23 XOR (NOT a24 AND a20),
   a24 XOR (NOT a20 AND a21)]"
  unfolding chi_def Let_def upt_25 list.map
  by simp

lemma upt_24: "[0..<24] = [0, 1, 2, 3, 4, 5, 6, 7, 8, 9, 10, 11, 12, 13, 14, 15, 16, 17, 18, 19, 20, 21, 22, 23]"
  by (simp add: upt_rec)

lemma keccak_f_unrolled:
  "keccak_f a = keccak_round 23 (keccak_round 22 (keccak_round 21 (keccak_round 20 (keccak_round 19 (keccak_round 18 (keccak_round 17 (keccak_round 16 (keccak_round 15 (keccak_round 14 (keccak_round 13 (keccak_round 12 (keccak_round 11 (keccak_round 10 (keccak_round 9 (keccak_round 8 (keccak_round 7 (keccak_round 6 (keccak_round 5 (keccak_round 4 (keccak_round 3 (keccak_round 2 (keccak_round 1 (keccak_round 0 (a))))))))))))))))))))))))"
  unfolding keccak_f_def upt_24 by simp


lemma rotl_eval: "n \<le> 64 \<Longrightarrow> rotl w n = push_bit n w OR drop_bit (64 - n) w"
proof (rule bit_word_eqI)
  fix k assume n: "n \<le> 64" and "k < LENGTH(64)"
  then have k: "k < 64" by simp
  show "bit (rotl w n) k = bit (push_bit n w OR drop_bit (64 - n) w) k"
  proof (cases "n \<le> k")
    case True
    then have "(k + (64 - n mod 64)) mod 64 = k - n"
      using n k by (cases "n = 64") (auto simp: mod_if)
    moreover have "\<not> bit w (64 - n + k)"
      using True n bit_imp_le_length[of w "64 - n + k"] by auto
    ultimately show ?thesis
      using True k n by (simp add: rotl_def bit_word_rotl_iff bit_or_iff bit_push_bit_iff bit_drop_bit_eq)
  next
    case False
    then have "(k + (64 - n mod 64)) mod 64 = 64 - n + k"
      using n k by (cases "n = 64") (auto simp: mod_if)
    then show ?thesis
      using False k n by (simp add: rotl_def bit_word_rotl_iff bit_or_iff bit_push_bit_iff bit_drop_bit_eq)
  qed
qed

subsection \<open>The empty input and the input hello, round by round\<close>

lemma empty_lanes:
  "lanes_of_bytes (spec_pad (xor_bytes (replicate 200 0) []) (length [])) =
     [1, 0, 0, 0, 0, 0, 0, 0, 0, 0, 0, 0, 0, 0, 0, 0, 0x8000000000000000, 0, 0, 0, 0, 0, 0,
     0, 0]"
  by code_simp

lemma empty_round_0:
  "keccak_round 0
     [1, 0, 0, 0, 0, 0, 0, 0, 0, 0, 0, 0, 0, 0, 0, 0, 0x8000000000000000, 0, 0, 0, 0, 0, 0,
     0, 0] =
     [0x40000000001, 0x100000000000, 0x40000008000, 0, 0x100000008000, 8, 0x300000200000,
     0x1000000000000008, 0x300000000000, 0x1000000000200000, 2, 0x220, 0x40000, 0x202,
     0x40020, 0x10000400, 0x1000004000, 0x400, 0x10004000, 0x1000000000, 0x2000010000000000,
     0x20000000000, 0x10000000004, 0x2000020000000000, 4]"
  by (simp add: keccak_round_def theta_unrolled rho_pi_unrolled chi_unrolled iota_def RC_def rotl_eval)

lemma empty_round_1:
  "keccak_round 1
     [0x40000000001, 0x100000000000, 0x40000008000, 0, 0x100000008000, 8, 0x300000200000,
     0x1000000000000008, 0x300000000000, 0x1000000000200000, 2, 0x220, 0x40000, 0x202,
     0x40020, 0x10000400, 0x1000004000, 0x400, 0x10004000, 0x1000000000, 0x2000010000000000,
     0x20000000000, 0x10000000004, 0x2000020000000000, 4] =
     [0x36305230006404E6, 0x10C339B88B760106, 0x2C31260010309901, 0xB402598888E60461,
     0x8EC12C0011141902, 0x479C441202162, 0xA9834204A1850002, 0x8002A96207243BF4,
     0x2986B00442E20013, 0x88030AE2A44318C5, 0x40002504A452186C, 0x298438083B9F34,
     0x14C09A8C9DF0C04B, 0x382E3020480C46, 0x54D1819819B14311, 0x1BC065087388D40,
     0x254056D141076300, 0x442C006724388184, 0x22881640E2122040, 0x425040A620050F84,
     0x10250AB408141191, 0xEA18C00A90A046E2, 0x2252E3040181054, 0xD800C8A408A061A1,
     0x2218340AD024160E]"
  by (simp add: keccak_round_def theta_unrolled rho_pi_unrolled chi_unrolled iota_def RC_def rotl_eval)

lemma empty_round_2:
  "keccak_round 2
     [0x36305230006404E6, 0x10C339B88B760106, 0x2C31260010309901, 0xB402598888E60461,
     0x8EC12C0011141902, 0x479C441202162, 0xA9834204A1850002, 0x8002A96207243BF4,
     0x2986B00442E20013, 0x88030AE2A44318C5, 0x40002504A452186C, 0x298438083B9F34,
     0x14C09A8C9DF0C04B, 0x382E3020480C46, 0x54D1819819B14311, 0x1BC065087388D40,
     0x254056D141076300, 0x442C006724388184, 0x22881640E2122040, 0x425040A620050F84,
     0x10250AB408141191, 0xEA18C00A90A046E2, 0x2252E3040181054, 0xD800C8A408A061A1,
     0x2218340AD024160E] =
     [0x7308CF19F675A28C, 0x24C8413593A231E3, 0x9F099D478B237977, 0x2AB7F95C8AC310B3,
     0x8E28A10FC66873FC, 0x5D32E773B2B55C7D, 0x7D33980232045C83, 0xE28A2B70205085A5,
     0xCC2CD7E324D2468E, 0xB74A863BF2536585, 0x5D369D3C79BA85A5, 0x22ED7119E3C4E384,
     0x4BCC0C935097F374, 0x2E5DC77A860CA66F, 0x2DBEEA71F1E35A7A, 0xC669DEC7291539AB,
     0x9F80D8AC374BB6CD, 0x91C77AFE0262C26D, 0x2DE8DBD4DCDE6FB1, 0x46C24C7C739D6870,
     0x783E0513AFECCC1A, 0xA29AC517088AD63A, 0x1D20DF7ECB8E7067, 0x655B7BF46AAE9A3C,
     0x43C735309C4E1439]"
  by (simp add: keccak_round_def theta_unrolled rho_pi_unrolled chi_unrolled iota_def RC_def rotl_eval)

lemma empty_round_3:
  "keccak_round 3
     [0x7308CF19F675A28C, 0x24C8413593A231E3, 0x9F099D478B237977, 0x2AB7F95C8AC310B3,
     0x8E28A10FC66873FC, 0x5D32E773B2B55C7D, 0x7D33980232045C83, 0xE28A2B70205085A5,
     0xCC2CD7E324D2468E, 0xB74A863BF2536585, 0x5D369D3C79BA85A5, 0x22ED7119E3C4E384,
     0x4BCC0C935097F374, 0x2E5DC77A860CA66F, 0x2DBEEA71F1E35A7A, 0xC669DEC7291539AB,
     0x9F80D8AC374BB6CD, 0x91C77AFE0262C26D, 0x2DE8DBD4DCDE6FB1, 0x46C24C7C739D6870,
     0x783E0513AFECCC1A, 0xA29AC517088AD63A, 0x1D20DF7ECB8E7067, 0x655B7BF46AAE9A3C,
     0x43C735309C4E1439] =
     [0x7EEC1012F66BAEE6, 0xE6D2E4458CAC18A9, 0x5096C520535F288F, 0x5ADF5824750696D5,
     0x2867F1088B8FD658, 0xACCFDCB0BD9BCEA8, 0x5FD9797E9164980, 0x44A2CBF947E16CEE,
     0xACEB2429DB2CD55D, 0x6A48FC23515EE2A8, 0xB94607983D4705BF, 0x1B1BD3901A486275,
     0xF1C146F6AFE51EC3, 0x10DE9DE4EF506C58, 0x6AC0B280C3C395BB, 0xF97C5FBE14FF3BC6,
     0x19CB20108C838C96, 0x982B0CF11854F22C, 0xD75032DE9743A238, 0x27F400CC90C3447,
     0xF2FACACDE688AFB6, 0x682013742AA1E73D, 0xCE5665BB2DF4E84, 0x279226377095E8D6,
     0x634646675441CE51]"
  by (simp add: keccak_round_def theta_unrolled rho_pi_unrolled chi_unrolled iota_def RC_def rotl_eval)

lemma empty_round_4:
  "keccak_round 4
     [0x7EEC1012F66BAEE6, 0xE6D2E4458CAC18A9, 0x5096C520535F288F, 0x5ADF5824750696D5,
     0x2867F1088B8FD658, 0xACCFDCB0BD9BCEA8, 0x5FD9797E9164980, 0x44A2CBF947E16CEE,
     0xACEB2429DB2CD55D, 0x6A48FC23515EE2A8, 0xB94607983D4705BF, 0x1B1BD3901A486275,
     0xF1C146F6AFE51EC3, 0x10DE9DE4EF506C58, 0x6AC0B280C3C395BB, 0xF97C5FBE14FF3BC6,
     0x19CB20108C838C96, 0x982B0CF11854F22C, 0xD75032DE9743A238, 0x27F400CC90C3447,
     0xF2FACACDE688AFB6, 0x682013742AA1E73D, 0xCE5665BB2DF4E84, 0x279226377095E8D6,
     0x634646675441CE51] =
     [0x2CA78D1FB0A64DC7, 0x6450DD6A88CD74E3, 0x6CCE78E37BE7CCF9, 0x5F5144BA9082B898,
     0x50BD6EBB1A526D89, 0x6B68CEE4F00B096, 0x1D0FD475CB63DF7B, 0xB871C02C5547E2EE,
     0x54E2FF6B9C6E656E, 0xAC2400FF8481B1E8, 0x484FB645561A4AF9, 0x5B2D34B2FA6DF33C,
     0x85EE3CE0C5E41191, 0x19852566623A33E5, 0x5623446D9C77334D, 0xC0041CD3A2E7CDE2,
     0x268A41A57A642F48, 0x7F274EE5A657E34E, 0x23CB54EE34C79A96, 0x4087455B7B69C9A0,
     0x3C4EEE45F0E96635, 0xF60516BABE614702, 0xDD5DC346837E8117, 0x14A0E647EB74E246,
     0x6875306431036BE1]"
  by (simp add: keccak_round_def theta_unrolled rho_pi_unrolled chi_unrolled iota_def RC_def rotl_eval)

lemma empty_round_5:
  "keccak_round 5
     [0x2CA78D1FB0A64DC7, 0x6450DD6A88CD74E3, 0x6CCE78E37BE7CCF9, 0x5F5144BA9082B898,
     0x50BD6EBB1A526D89, 0x6B68CEE4F00B096, 0x1D0FD475CB63DF7B, 0xB871C02C5547E2EE,
     0x54E2FF6B9C6E656E, 0xAC2400FF8481B1E8, 0x484FB645561A4AF9, 0x5B2D34B2FA6DF33C,
     0x85EE3CE0C5E41191, 0x19852566623A33E5, 0x5623446D9C77334D, 0xC0041CD3A2E7CDE2,
     0x268A41A57A642F48, 0x7F274EE5A657E34E, 0x23CB54EE34C79A96, 0x4087455B7B69C9A0,
     0x3C4EEE45F0E96635, 0xF60516BABE614702, 0xDD5DC346837E8117, 0x14A0E647EB74E246,
     0x6875306431036BE1] =
     [0x3714EC483B77561, 0x960390566A2C6AC8, 0x4C6550ED49562E97, 0x23DD64E6B0DAAF2B,
     0x91056DD06977D6C0, 0xB956F647C80E8D70, 0xEA5C2241FD7B94BA, 0x134BB59F1BCF0247,
     0x91452A19CAF34F91, 0xAEAB563906CF2385, 0xB866018A9E0BBA63, 0x7F3CA8C6BA9C61D8,
     0x8C679969C1CC1E85, 0xDAC3103FBD2D1C5F, 0x9545A6FD2AA12E71, 0x3B60BA0DAF5DD647,
     0xC61C9AEF7A406AFF, 0xFD48252495F77488, 0x3E35D8A1775921F2, 0x86EA5B33F7B4ACAD,
     0x7F2C4298932AA448, 0x75D1A9EC21ED8FD3, 0xB53BAA7AB739A65, 0xFE0F5D774357647,
     0x394CAE2300E6C89B]"
  by (simp add: keccak_round_def theta_unrolled rho_pi_unrolled chi_unrolled iota_def RC_def rotl_eval)

lemma empty_round_6:
  "keccak_round 6
     [0x3714EC483B77561, 0x960390566A2C6AC8, 0x4C6550ED49562E97, 0x23DD64E6B0DAAF2B,
     0x91056DD06977D6C0, 0xB956F647C80E8D70, 0xEA5C2241FD7B94BA, 0x134BB59F1BCF0247,
     0x91452A19CAF34F91, 0xAEAB563906CF2385, 0xB866018A9E0BBA63, 0x7F3CA8C6BA9C61D8,
     0x8C679969C1CC1E85, 0xDAC3103FBD2D1C5F, 0x9545A6FD2AA12E71, 0x3B60BA0DAF5DD647,
     0xC61C9AEF7A406AFF, 0xFD48252495F77488, 0x3E35D8A1775921F2, 0x86EA5B33F7B4ACAD,
     0x7F2C4298932AA448, 0x75D1A9EC21ED8FD3, 0xB53BAA7AB739A65, 0xFE0F5D774357647,
     0x394CAE2300E6C89B] =
     [0xFF647574FD808EE5, 0xF7D9BDEF0B0ECAF5, 0xC83D187FAAB6F1F9, 0x657B3D4B4F63BF5,
     0x97300FCA0282BBA7, 0x770101D976C15573, 0xF7271ADE017FEBFA, 0x42B9F7D70C5705AE,
     0xCAFF990EF3C91833, 0x697C3C858A8E3440, 0x75F63AB33135C188, 0x1C5DE0B94E4E9954,
     0xDCA8D56A6EB23EE3, 0x6FBFB5A056E6C459, 0xEEEBF6BFF71634B1, 0xEBD520E879A78D6C,
     0x4DD8667CD028F448, 0xDAB9A465A90B554E, 0x753935893C57F357, 0xFB087FD2C2E521C5,
     0x72C54EB4855261A4, 0x82C7569247019817, 0xE136C0A064873906, 0xA729D20E42D31B67,
     0x61EEBD0E0E2D812B]"
  by (simp add: keccak_round_def theta_unrolled rho_pi_unrolled chi_unrolled iota_def RC_def rotl_eval)

lemma empty_round_7:
  "keccak_round 7
     [0xFF647574FD808EE5, 0xF7D9BDEF0B0ECAF5, 0xC83D187FAAB6F1F9, 0x657B3D4B4F63BF5,
     0x97300FCA0282BBA7, 0x770101D976C15573, 0xF7271ADE017FEBFA, 0x42B9F7D70C5705AE,
     0xCAFF990EF3C91833, 0x697C3C858A8E3440, 0x75F63AB33135C188, 0x1C5DE0B94E4E9954,
     0xDCA8D56A6EB23EE3, 0x6FBFB5A056E6C459, 0xEEEBF6BFF71634B1, 0xEBD520E879A78D6C,
     0x4DD8667CD028F448, 0xDAB9A465A90B554E, 0x753935893C57F357, 0xFB087FD2C2E521C5,
     0x72C54EB4855261A4, 0x82C7569247019817, 0xE136C0A064873906, 0xA729D20E42D31B67,
     0x61EEBD0E0E2D812B] =
     [0xB0FD17F53AE92E45, 0x1D4F440A212924C0, 0xB6B9F5785215876B, 0xA8EBC10D7B748A08,
     0xE45DBB16D8CA36FB, 0x2D50C83785B5EE32, 0x4646C94FFD3915F0, 0xD46E9A152672FD83,
     0xEC848C63BD941392, 0xD8968DCFED2D6F8B, 0xAC196B6D0C6CE375, 0xC3DAD3C06D317F1C,
     0x68797A3CE839047B, 0x96FAA603FE34647, 0xDF9252373AC663FA, 0xDF1772C56178E1B5,
     0xA3E26E77AC8C9687, 0xB71DC8DD0A96284, 0x847C301EEE5374B0, 0xCA3604A2D2A6AA88,
     0xDE41F7B3BCE1ACA2, 0xCF4D4DE020D8C994, 0xE069595B550BEF2E, 0xBA1D7F0D189010D0,
     0xF513233C28F4DDA0]"
  by (simp add: keccak_round_def theta_unrolled rho_pi_unrolled chi_unrolled iota_def RC_def rotl_eval)

lemma empty_round_8:
  "keccak_round 8
     [0xB0FD17F53AE92E45, 0x1D4F440A212924C0, 0xB6B9F5785215876B, 0xA8EBC10D7B748A08,
     0xE45DBB16D8CA36FB, 0x2D50C83785B5EE32, 0x4646C94FFD3915F0, 0xD46E9A152672FD83,
     0xEC848C63BD941392, 0xD8968DCFED2D6F8B, 0xAC196B6D0C6CE375, 0xC3DAD3C06D317F1C,
     0x68797A3CE839047B, 0x96FAA603FE34647, 0xDF9252373AC663FA, 0xDF1772C56178E1B5,
     0xA3E26E77AC8C9687, 0xB71DC8DD0A96284, 0x847C301EEE5374B0, 0xCA3604A2D2A6AA88,
     0xDE41F7B3BCE1ACA2, 0xCF4D4DE020D8C994, 0xE069595B550BEF2E, 0xBA1D7F0D189010D0,
     0xF513233C28F4DDA0] =
     [0xE6793E2397506542, 0x1DDB637D149A8A06, 0x5B35A54E14BCFFFF, 0xCB5AA90388EBA654,
     0xA3A4BFC5A60473EB, 0x386AEE2B513A1936, 0x6513D1F1219CB90F, 0xB8EC554E5F878440,
     0x3580A2CAED41269, 0x385BDF5EEE3B532D, 0xD41099A6AEF35B05, 0x262BC24121EBED31,
     0x258932BF7F92E37D, 0x57CF2D18C4CD4F90, 0x1BF18BA20CFB0BA5, 0x9D56828B652F2B44,
     0x8A1ABFDF9D671216, 0xD32D5E80EE56EAD9, 0x38C279AC8674CD62, 0x8E6B4F19F3AB9E48,
     0xA101A4B68570F00B, 0x3646245C26B464B4, 0x1A0312EE4BECC874, 0xCB1C53D72F8F5BDE,
     0xA5533594F4A600FC]"
  by (simp add: keccak_round_def theta_unrolled rho_pi_unrolled chi_unrolled iota_def RC_def rotl_eval)

lemma empty_round_9:
  "keccak_round 9
     [0xE6793E2397506542, 0x1DDB637D149A8A06, 0x5B35A54E14BCFFFF, 0xCB5AA90388EBA654,
     0xA3A4BFC5A60473EB, 0x386AEE2B513A1936, 0x6513D1F1219CB90F, 0xB8EC554E5F878440,
     0x3580A2CAED41269, 0x385BDF5EEE3B532D, 0xD41099A6AEF35B05, 0x262BC24121EBED31,
     0x258932BF7F92E37D, 0x57CF2D18C4CD4F90, 0x1BF18BA20CFB0BA5, 0x9D56828B652F2B44,
     0x8A1ABFDF9D671216, 0xD32D5E80EE56EAD9, 0x38C279AC8674CD62, 0x8E6B4F19F3AB9E48,
     0xA101A4B68570F00B, 0x3646245C26B464B4, 0x1A0312EE4BECC874, 0xCB1C53D72F8F5BDE,
     0xA5533594F4A600FC] =
     [0xACB0712A8E67C328, 0xD12EE2D8BA7828BD, 0xE583C9F0ADAB0B75, 0xAB20E819ECCBABA,
     0x40B16F59857C716D, 0x39620378D318E17E, 0x424B4BFE05838ECA, 0xD6CFD65C9C7DEE34,
     0xFABA550E389966F2, 0xC60A3EA32A5B1959, 0x28643BBF7CF604CD, 0xD2DC698A5FFBAAE,
     0x4DEE9A2CF0B9A120, 0xB0B47222035B2542, 0x1B67E710D1AE8703, 0x75E4051C3C9DBA3F,
     0x3CC5F4D4261A20E4, 0xAD1C26E0B9E4F3A, 0x9FCF6BBD5D3004FF, 0x9699D7BF2C1B0F8A,
     0xF32901AA2E4467DB, 0xD4BD2C31D05F2A31, 0x77EF741DA52CD5AB, 0xB7DD4DE235AB46F0,
     0x7F397DE3F1CFB970]"
  by (simp add: keccak_round_def theta_unrolled rho_pi_unrolled chi_unrolled iota_def RC_def rotl_eval)

lemma empty_round_10:
  "keccak_round 10
     [0xACB0712A8E67C328, 0xD12EE2D8BA7828BD, 0xE583C9F0ADAB0B75, 0xAB20E819ECCBABA,
     0x40B16F59857C716D, 0x39620378D318E17E, 0x424B4BFE05838ECA, 0xD6CFD65C9C7DEE34,
     0xFABA550E389966F2, 0xC60A3EA32A5B1959, 0x28643BBF7CF604CD, 0xD2DC698A5FFBAAE,
     0x4DEE9A2CF0B9A120, 0xB0B47222035B2542, 0x1B67E710D1AE8703, 0x75E4051C3C9DBA3F,
     0x3CC5F4D4261A20E4, 0xAD1C26E0B9E4F3A, 0x9FCF6BBD5D3004FF, 0x9699D7BF2C1B0F8A,
     0xF32901AA2E4467DB, 0xD4BD2C31D05F2A31, 0x77EF741DA52CD5AB, 0xB7DD4DE235AB46F0,
     0x7F397DE3F1CFB970] =
     [0x26A5233F6438B6DC, 0xACE3DF49A43E3FD6, 0xC4086346DC94DC2E, 0x20EA8BEC3236B3C9,
     0xF229827EFF26D05A, 0xFAF8F47D3F5F6884, 0x927D36F588A9B430, 0x11DA5674194B4E64,
     0x6DA5E479DFD8191E, 0xBE1079143A68539F, 0xCADBD0CABD32FC24, 0xE9DD3BBDEAA3DD94,
     0x76F97CF8108E2CA0, 0xD1107B058A44218C, 0xEEA97E5C08F8AC49, 0xDAF2D4E0F2F78F95,
     0x883160E013F90580, 0xB1A414213BF04CE4, 0xD44A7EDA957D550E, 0x9E55B35D791CDC21,
     0xD1DEC853A1015AE4, 0x4C926EF6A84EEF87, 0x6F0576229FA8AA0C, 0xD59C1598F6CE72CA,
     0xAFF83D1CBAD917BA]"
  by (simp add: keccak_round_def theta_unrolled rho_pi_unrolled chi_unrolled iota_def RC_def rotl_eval)

lemma empty_round_11:
  "keccak_round 11
     [0x26A5233F6438B6DC, 0xACE3DF49A43E3FD6, 0xC4086346DC94DC2E, 0x20EA8BEC3236B3C9,
     0xF229827EFF26D05A, 0xFAF8F47D3F5F6884, 0x927D36F588A9B430, 0x11DA5674194B4E64,
     0x6DA5E479DFD8191E, 0xBE1079143A68539F, 0xCADBD0CABD32FC24, 0xE9DD3BBDEAA3DD94,
     0x76F97CF8108E2CA0, 0xD1107B058A44218C, 0xEEA97E5C08F8AC49, 0xDAF2D4E0F2F78F95,
     0x883160E013F90580, 0xB1A414213BF04CE4, 0xD44A7EDA957D550E, 0x9E55B35D791CDC21,
     0xD1DEC853A1015AE4, 0x4C926EF6A84EEF87, 0x6F0576229FA8AA0C, 0xD59C1598F6CE72CA,
     0xAFF83D1CBAD917BA] =
     [0xE215D0D659163823, 0x8683974493A469B1, 0xF64F37F10BF45B28, 0xFDEE927EA471DF68,
     0x500C7269F3EE0799, 0x45D78EA405A3A964, 0x3557220B429A4D3, 0x3195DEB85A7107AB,
     0x3D502DDDA7398A8D, 0xC2FEBBF32D430D7B, 0x917923E1A60BF1BE, 0xC22DD9CF3E60EFBE,
     0x21CE54A25B74D00D, 0x9868DE16A584C50E, 0xA62D01CD00859E89, 0xD1C3D4F6F08DA26F,
     0xB0BE6294F4D17ACE, 0x69DA1AFCE162547D, 0x3C8A7B614F3CAB7, 0xC5B26F28BFDB70E2,
     0x795AD43D7A4BEAEA, 0x9D9BBA34AB9D1948, 0x7BE76F07D92B7C83, 0x1528C0DC1CCE7E4E,
     0x2831A3BF7AEEB33E]"
  by (simp add: keccak_round_def theta_unrolled rho_pi_unrolled chi_unrolled iota_def RC_def rotl_eval)

lemma empty_round_12:
  "keccak_round 12
     [0xE215D0D659163823, 0x8683974493A469B1, 0xF64F37F10BF45B28, 0xFDEE927EA471DF68,
     0x500C7269F3EE0799, 0x45D78EA405A3A964, 0x3557220B429A4D3, 0x3195DEB85A7107AB,
     0x3D502DDDA7398A8D, 0xC2FEBBF32D430D7B, 0x917923E1A60BF1BE, 0xC22DD9CF3E60EFBE,
     0x21CE54A25B74D00D, 0x9868DE16A584C50E, 0xA62D01CD00859E89, 0xD1C3D4F6F08DA26F,
     0xB0BE6294F4D17ACE, 0x69DA1AFCE162547D, 0x3C8A7B614F3CAB7, 0xC5B26F28BFDB70E2,
     0x795AD43D7A4BEAEA, 0x9D9BBA34AB9D1948, 0x7BE76F07D92B7C83, 0x1528C0DC1CCE7E4E,
     0x2831A3BF7AEEB33E] =
     [0x5C7F04A9EB415DAA, 0x4C44E75259F5833E, 0xADFF9FB8251DE691, 0xECC21E383B00020C,
     0xD7F4EE69F1415482, 0x6E0E74DF7917D016, 0x7ACE3467E85790D7, 0x5C67F9BF8AA12768,
     0x494F75D8F24F6D3B, 0xA06AB0F6F845067F, 0xE5E6F8F52E665057, 0x95C81719483BCF1,
     0x2E6EBD9C061C2477, 0x40D303D8DA5E09A6, 0x6BA6B350BF2473CC, 0x75FF6312B50B7CA0,
     0x36E3E7649BE5660D, 0x70815CACE6248E90, 0x5D083F8A3F827FB4, 0x5B533D654E7C4F7C,
     0x827F66994D03D4B2, 0x6DB7286666D1DD08, 0x4974356A95BF7635, 0xA4F8FB3B401C504D,
     0xE6A9DD54D881EE17]"
  by (simp add: keccak_round_def theta_unrolled rho_pi_unrolled chi_unrolled iota_def RC_def rotl_eval)

lemma empty_round_13:
  "keccak_round 13
     [0x5C7F04A9EB415DAA, 0x4C44E75259F5833E, 0xADFF9FB8251DE691, 0xECC21E383B00020C,
     0xD7F4EE69F1415482, 0x6E0E74DF7917D016, 0x7ACE3467E85790D7, 0x5C67F9BF8AA12768,
     0x494F75D8F24F6D3B, 0xA06AB0F6F845067F, 0xE5E6F8F52E665057, 0x95C81719483BCF1,
     0x2E6EBD9C061C2477, 0x40D303D8DA5E09A6, 0x6BA6B350BF2473CC, 0x75FF6312B50B7CA0,
     0x36E3E7649BE5660D, 0x70815CACE6248E90, 0x5D083F8A3F827FB4, 0x5B533D654E7C4F7C,
     0x827F66994D03D4B2, 0x6DB7286666D1DD08, 0x4974356A95BF7635, 0xA4F8FB3B401C504D,
     0xE6A9DD54D881EE17] =
     [0x94B8714A79B4F579, 0xDD97992DA9CC5043, 0xA7969C8E19EE2E30, 0xE17CB08C2DCB80B2,
     0x93B4C73A176A6E8B, 0x930635EC94145A75, 0x62C1C8E04F0FE2F1, 0x6B8F7814668BD3B6,
     0xFD3C7A8645DAAC15, 0x6664B42598DD1A9F, 0xD02899CB42351935, 0x6E073A60688D2F43,
     0xF7A3BF7901C8A1B4, 0xD28BF4A883D9F707, 0x69AC15F15BC3CAA1, 0xA10DFF23D712EFD6,
     0xD25BF564ECB6BAE4, 0xA2A205D32D1C77D5, 0x4CD0F337C02EB42D, 0xCD037F12B25F8C45,
     0x91009DEA8A079812, 0x42F7644E5C9CE5FA, 0xEBFEAC5F99D4EC3D, 0xC1A9909371A9524E,
     0x446967526ECE2D32]"
  by (simp add: keccak_round_def theta_unrolled rho_pi_unrolled chi_unrolled iota_def RC_def rotl_eval)

lemma empty_round_14:
  "keccak_round 14
     [0x94B8714A79B4F579, 0xDD97992DA9CC5043, 0xA7969C8E19EE2E30, 0xE17CB08C2DCB80B2,
     0x93B4C73A176A6E8B, 0x930635EC94145A75, 0x62C1C8E04F0FE2F1, 0x6B8F7814668BD3B6,
     0xFD3C7A8645DAAC15, 0x6664B42598DD1A9F, 0xD02899CB42351935, 0x6E073A60688D2F43,
     0xF7A3BF7901C8A1B4, 0xD28BF4A883D9F707, 0x69AC15F15BC3CAA1, 0xA10DFF23D712EFD6,
     0xD25BF564ECB6BAE4, 0xA2A205D32D1C77D5, 0x4CD0F337C02EB42D, 0xCD037F12B25F8C45,
     0x91009DEA8A079812, 0x42F7644E5C9CE5FA, 0xEBFEAC5F99D4EC3D, 0xC1A9909371A9524E,
     0x446967526ECE2D32] =
     [0x1251936A8B5EEBA5, 0x4ACA96297139B192, 0x8182EDC9F77FA479, 0x8293FAA3877ACE1B,
     0x59CD706154E322AB, 0xEF6EC5CF7B1B7AB9, 0xEE37513A4F7D4E0C, 0x3700D6C3B2E813EA,
     0xC4D7B805FC59D00E, 0x852CC5AA82014EAA, 0x8DB34CA93C0A3C01, 0xC5C336FA1C78CBEB,
     0x6F924CBEBB1C8143, 0x20DD590C86345D40, 0x1927DBFE08689C5E, 0xE9414EAE99FD861A,
     0xA1A4155038E1F6C2, 0x55954C3799242D13, 0xFEC57F37F0FBB1C, 0x1215638FE6A8666E,
     0x1A6BF3C160D5E086, 0x1D936B379AAF3AAE, 0x44BE2462BF8D77FB, 0x24A8976EC4680654,
     0x2714F4EE7154B4E5]"
  by (simp add: keccak_round_def theta_unrolled rho_pi_unrolled chi_unrolled iota_def RC_def rotl_eval)

lemma empty_round_15:
  "keccak_round 15
     [0x1251936A8B5EEBA5, 0x4ACA96297139B192, 0x8182EDC9F77FA479, 0x8293FAA3877ACE1B,
     0x59CD706154E322AB, 0xEF6EC5CF7B1B7AB9, 0xEE37513A4F7D4E0C, 0x3700D6C3B2E813EA,
     0xC4D7B805FC59D00E, 0x852CC5AA82014EAA, 0x8DB34CA93C0A3C01, 0xC5C336FA1C78CBEB,
     0x6F924CBEBB1C8143, 0x20DD590C86345D40, 0x1927DBFE08689C5E, 0xE9414EAE99FD861A,
     0xA1A4155038E1F6C2, 0x55954C3799242D13, 0xFEC57F37F0FBB1C, 0x1215638FE6A8666E,
     0x1A6BF3C160D5E086, 0x1D936B379AAF3AAE, 0x44BE2462BF8D77FB, 0x24A8976EC4680654,
     0x2714F4EE7154B4E5] =
     [0xC0A57522C1EFE859, 0xE69B77EC2C9DA6A6, 0x742A4601A5F0E5DC, 0x17C698335125EB15,
     0xBD1D5DA6CB6E5FC4, 0x96DE5A792E31754C, 0x4138EBAE6A7CFB4D, 0x3B7CD6B3EA8EBF75,
     0xF03C1A06392E26BC, 0x1612232072F44FA, 0x31342913C82745E4, 0x68DDC2ED8BC8D24C,
     0xD99975F96A92D1CC, 0x25E266C9373F7458, 0x1AAB65F4DF45F0E4, 0xC5F388588CDAA834,
     0x98C80570CB3A38E0, 0xBBD7E454C66C974, 0xB82928DE1C884093, 0xED0519D874AEB66C,
     0x91C4350B275F2C14, 0x5BF7EAEC860B83DC, 0x4AFCA4318F8727CA, 0x5C69CA452B9AC7A6,
     0x773D4EFCFE30E690]"
  by (simp add: keccak_round_def theta_unrolled rho_pi_unrolled chi_unrolled iota_def RC_def rotl_eval)

lemma empty_round_16:
  "keccak_round 16
     [0xC0A57522C1EFE859, 0xE69B77EC2C9DA6A6, 0x742A4601A5F0E5DC, 0x17C698335125EB15,
     0xBD1D5DA6CB6E5FC4, 0x96DE5A792E31754C, 0x4138EBAE6A7CFB4D, 0x3B7CD6B3EA8EBF75,
     0xF03C1A06392E26BC, 0x1612232072F44FA, 0x31342913C82745E4, 0x68DDC2ED8BC8D24C,
     0xD99975F96A92D1CC, 0x25E266C9373F7458, 0x1AAB65F4DF45F0E4, 0xC5F388588CDAA834,
     0x98C80570CB3A38E0, 0xBBD7E454C66C974, 0xB82928DE1C884093, 0xED0519D874AEB66C,
     0x91C4350B275F2C14, 0x5BF7EAEC860B83DC, 0x4AFCA4318F8727CA, 0x5C69CA452B9AC7A6,
     0x773D4EFCFE30E690] =
     [0x74CD1A0B5C45BB1D, 0x2FDBBFD5E26E6C80, 0x3664FD7ADE3D2112, 0x4D596E0A2082FD39,
     0xDA9866F1AD50D45, 0xD081DF0AAFB1C0F8, 0x3317BF0929C61CCE, 0x8AC112AA8F94D330,
     0xCDF09C15B803936B, 0x767832D8BBE71DE, 0xE97B6951D0F40780, 0xE37353AED69D93B7,
     0xBF467D1C1715B186, 0x39348C0471D52BAD, 0x6AA26979DE1B4EBE, 0x31D984E187FD0B3F,
     0x787A7DDA6B04518F, 0xF43C16480AD8A982, 0xE5D188994432A48D, 0x79D04865DBFCF654,
     0x85263FDF3C61FB76, 0xB5EB3E9DE6322F32, 0xD3B3770D01BAD296, 0x21C6091F1B07DF3A,
     0xEC5BE23D9A252E3]"
  by (simp add: keccak_round_def theta_unrolled rho_pi_unrolled chi_unrolled iota_def RC_def rotl_eval)

lemma empty_round_17:
  "keccak_round 17
     [0x74CD1A0B5C45BB1D, 0x2FDBBFD5E26E6C80, 0x3664FD7ADE3D2112, 0x4D596E0A2082FD39,
     0xDA9866F1AD50D45, 0xD081DF0AAFB1C0F8, 0x3317BF0929C61CCE, 0x8AC112AA8F94D330,
     0xCDF09C15B803936B, 0x767832D8BBE71DE, 0xE97B6951D0F40780, 0xE37353AED69D93B7,
     0xBF467D1C1715B186, 0x39348C0471D52BAD, 0x6AA26979DE1B4EBE, 0x31D984E187FD0B3F,
     0x787A7DDA6B04518F, 0xF43C16480AD8A982, 0xE5D188994432A48D, 0x79D04865DBFCF654,
     0x85263FDF3C61FB76, 0xB5EB3E9DE6322F32, 0xD3B3770D01BAD296, 0x21C6091F1B07DF3A,
     0xEC5BE23D9A252E3] =
     [0x76A338EB96C92D7, 0x33484C2467DA3A2F, 0xA00A123B70909768, 0xF9725637037DFEC9,
     0xB3C8DF9ED9AFE09F, 0x4F560E9256792297, 0x23D8AF656DE816D5, 0x90B7983DE0E67EBC,
     0x9B875A7F1E4C593, 0x63D1D365572FF328, 0x3CD41B33E0BE651F, 0xFE2E681C51DCB871,
     0xFA68EC5D2B44CE9E, 0xE209BF0E26DC6666, 0xD50E252D48F3400E, 0xFEE5680E61A436B8,
     0x5DA6FE223A46434E, 0x88874B94BD7F6D01, 0xAC675B1C243A04B2, 0xAF29DFEE768EC58E,
     0x3FC384CF44F72C9D, 0x77A9BFA813162312, 0xB31566F0585E1C84, 0x55A8E9DF0C9DFD4,
     0x53CB08A7274B89BA]"
  by (simp add: keccak_round_def theta_unrolled rho_pi_unrolled chi_unrolled iota_def RC_def rotl_eval)

lemma empty_round_18:
  "keccak_round 18
     [0x76A338EB96C92D7, 0x33484C2467DA3A2F, 0xA00A123B70909768, 0xF9725637037DFEC9,
     0xB3C8DF9ED9AFE09F, 0x4F560E9256792297, 0x23D8AF656DE816D5, 0x90B7983DE0E67EBC,
     0x9B875A7F1E4C593, 0x63D1D365572FF328, 0x3CD41B33E0BE651F, 0xFE2E681C51DCB871,
     0xFA68EC5D2B44CE9E, 0xE209BF0E26DC6666, 0xD50E252D48F3400E, 0xFEE5680E61A436B8,
     0x5DA6FE223A46434E, 0x88874B94BD7F6D01, 0xAC675B1C243A04B2, 0xAF29DFEE768EC58E,
     0x3FC384CF44F72C9D, 0x77A9BFA813162312, 0xB31566F0585E1C84, 0x55A8E9DF0C9DFD4,
     0x53CB08A7274B89BA] =
     [0xEF48B8BFEB2744BB, 0x654B0FED0F6F068A, 0xADA6F64B2DA58246, 0xE16EE8916777DD68,
     0x351A1BC3205D7BE8, 0x7733A961DC396EC9, 0xFE4447C6FC297F31, 0xA2198697B28D31E6,
     0x3315496C0EDA1790, 0x484B014D0533ADBC, 0xC81F6372C288F986, 0xBCB01C04457D96E5,
     0xA95796CF47E15612, 0xA030C2B49DDA1FF, 0x8958CCF7679C3B5F, 0x5CB577CD8075589F,
     0x4A018F11BC97D772, 0xB8D323349E6A70B7, 0xE5DEE69748ADD5ED, 0x30FFE2AE183B496,
     0x5CF98236A4EC69CA, 0x2604AF7D93C245F6, 0xDA0AD860A7DDF6D6, 0xDBD1670866D6A624,
     0xA0A384A3442103C8]"
  by (simp add: keccak_round_def theta_unrolled rho_pi_unrolled chi_unrolled iota_def RC_def rotl_eval)

lemma empty_round_19:
  "keccak_round 19
     [0xEF48B8BFEB2744BB, 0x654B0FED0F6F068A, 0xADA6F64B2DA58246, 0xE16EE8916777DD68,
     0x351A1BC3205D7BE8, 0x7733A961DC396EC9, 0xFE4447C6FC297F31, 0xA2198697B28D31E6,
     0x3315496C0EDA1790, 0x484B014D0533ADBC, 0xC81F6372C288F986, 0xBCB01C04457D96E5,
     0xA95796CF47E15612, 0xA030C2B49DDA1FF, 0x8958CCF7679C3B5F, 0x5CB577CD8075589F,
     0x4A018F11BC97D772, 0xB8D323349E6A70B7, 0xE5DEE69748ADD5ED, 0x30FFE2AE183B496,
     0x5CF98236A4EC69CA, 0x2604AF7D93C245F6, 0xDA0AD860A7DDF6D6, 0xDBD1670866D6A624,
     0xA0A384A3442103C8] =
     [0xE7C975D8AEFBF550, 0xA38F3460ADA0EE7D, 0xE143B97D38D0DF35, 0x40246AA05ABB10CE,
     0xE9B3782DB6913304, 0x30CBB8A9A0834BEB, 0xA2B410364559D216, 0x67D074BEB826412A,
     0xCA4E92687EF87D6D, 0x219BDCC027541342, 0x7287620A39B8D589, 0x727A598D6E76600D,
     0xACD076F2C449233, 0x4BDEEC258E791D5D, 0x186D5406E4E958E3, 0x4CE14C632358ED5A,
     0x9E2C7E0A7A1EC320, 0xB28753789ACE8DA3, 0xA7B0C9991FE8FE4B, 0xCEAC19ABF26F1851,
     0xCAEFFEC7B0507B05, 0x472CA39EA510F66A, 0xCC7B6B61BFF78BA5, 0xF1764918625504AB,
     0xCD384B9645C503A3]"
  by (simp add: keccak_round_def theta_unrolled rho_pi_unrolled chi_unrolled iota_def RC_def rotl_eval)

lemma empty_round_20:
  "keccak_round 20
     [0xE7C975D8AEFBF550, 0xA38F3460ADA0EE7D, 0xE143B97D38D0DF35, 0x40246AA05ABB10CE,
     0xE9B3782DB6913304, 0x30CBB8A9A0834BEB, 0xA2B410364559D216, 0x67D074BEB826412A,
     0xCA4E92687EF87D6D, 0x219BDCC027541342, 0x7287620A39B8D589, 0x727A598D6E76600D,
     0xACD076F2C449233, 0x4BDEEC258E791D5D, 0x186D5406E4E958E3, 0x4CE14C632358ED5A,
     0x9E2C7E0A7A1EC320, 0xB28753789ACE8DA3, 0xA7B0C9991FE8FE4B, 0xCEAC19ABF26F1851,
     0xCAEFFEC7B0507B05, 0x472CA39EA510F66A, 0xCC7B6B61BFF78BA5, 0xF1764918625504AB,
     0xCD384B9645C503A3] =
     [0xE4D287A01F080409, 0xF3B08FC3BF083F01, 0x7E680663C87E4F86, 0x90A8ECE65AF85627,
     0x2A3116B3FC59EC77, 0xBE7CFD4F0D27DD3, 0x30789D2A287BC677, 0x26B4F670E8CB0279,
     0x1230A9C408798B1, 0xB903EC5CE1023CF2, 0xE8836C0824CCBE8C, 0x5D8D0A5FE34F0FF0,
     0x490CFAB0B0389C56, 0x4036E0C46DB89D14, 0x67030540A22E3684, 0x33C47B3A83EEEE7D,
     0x3D0CBE5B21CCA71C, 0xD084A6B8A202161A, 0x3CB73E2079D93726, 0x2E9FF3BF787FD2C8,
     0x12E9DC1EF75368AC, 0x74670F81DB392BD8, 0x789557CC0CDDC3F7, 0xA0C829C5D7DBD624,
     0xE38F4F2843106A1A]"
  by (simp add: keccak_round_def theta_unrolled rho_pi_unrolled chi_unrolled iota_def RC_def rotl_eval)

lemma empty_round_21:
  "keccak_round 21
     [0xE4D287A01F080409, 0xF3B08FC3BF083F01, 0x7E680663C87E4F86, 0x90A8ECE65AF85627,
     0x2A3116B3FC59EC77, 0xBE7CFD4F0D27DD3, 0x30789D2A287BC677, 0x26B4F670E8CB0279,
     0x1230A9C408798B1, 0xB903EC5CE1023CF2, 0xE8836C0824CCBE8C, 0x5D8D0A5FE34F0FF0,
     0x490CFAB0B0389C56, 0x4036E0C46DB89D14, 0x67030540A22E3684, 0x33C47B3A83EEEE7D,
     0x3D0CBE5B21CCA71C, 0xD084A6B8A202161A, 0x3CB73E2079D93726, 0x2E9FF3BF787FD2C8,
     0x12E9DC1EF75368AC, 0x74670F81DB392BD8, 0x789557CC0CDDC3F7, 0xA0C829C5D7DBD624,
     0xE38F4F2843106A1A] =
     [0x67A6B668B7823E97, 0x6836C186C6896C37, 0x5228A82D35EA443D, 0x1147F1F0D89E6089,
     0x9E61B976DEF8787E, 0x425268B17D929984, 0xBB647912C69E8767, 0x7DFE5DCD8C02E555,
     0x7D8A497E88D5BC58, 0x1FA3EA82647AFDFD, 0xD716262751ECD3F, 0xADDF2B6362A74ADE,
     0xD1AE1668EE1F7B6B, 0x22E411DE1CE7AE26, 0xB573B3FA09AB1497, 0x8A84D26FC954382A,
     0x97AC3379CD19E543, 0x95B0A4D5625A494A, 0x1E25DB0B8CBA4E17, 0xD342634463487E3B,
     0x5AB2266E5F4F1133, 0x29ED02739DEFD2A4, 0x5FF62DA7FB015C4A, 0xC488556B6DD3A215,
     0x24B8BDCDE0E9EBD8]"
  by (simp add: keccak_round_def theta_unrolled rho_pi_unrolled chi_unrolled iota_def RC_def rotl_eval)

lemma empty_round_22:
  "keccak_round 22
     [0x67A6B668B7823E97, 0x6836C186C6896C37, 0x5228A82D35EA443D, 0x1147F1F0D89E6089,
     0x9E61B976DEF8787E, 0x425268B17D929984, 0xBB647912C69E8767, 0x7DFE5DCD8C02E555,
     0x7D8A497E88D5BC58, 0x1FA3EA82647AFDFD, 0xD716262751ECD3F, 0xADDF2B6362A74ADE,
     0xD1AE1668EE1F7B6B, 0x22E411DE1CE7AE26, 0xB573B3FA09AB1497, 0x8A84D26FC954382A,
     0x97AC3379CD19E543, 0x95B0A4D5625A494A, 0x1E25DB0B8CBA4E17, 0xD342634463487E3B,
     0x5AB2266E5F4F1133, 0x29ED02739DEFD2A4, 0x5FF62DA7FB015C4A, 0xC488556B6DD3A215,
     0x24B8BDCDE0E9EBD8] =
     [0xB776C454221536A0, 0x2CC562AAB665C6AC, 0x96854EC3F757A478, 0xBAF0E8C55C739718,
     0x8263456BA091515A, 0x76626AC752F6F6AA, 0x4E6FB95A23376335, 0x6DD890FA0AC6380B,
     0xE63E22AC7DE0AF2A, 0x9ECFC93F76589EEC, 0xA0B01B1261AB6A01, 0xAE3D547551959057,
     0x16E9BF1D538D80D, 0x2167900EA6E5A7BE, 0x7A406941F60CF465, 0xD3881A5CA182984D,
     0xBD5F1E80592136C8, 0x9B8A935BA0DDF5B0, 0x242C1ECEF1782E23, 0xF105204297C34BE6,
     0xCEFB15EC5F89B0AD, 0xDA47883FE04394BD, 0x668C64884A0EC53F, 0xA8511C9CFC53E49B,
     0xF48EFCF3A69E3A4E]"
  by (simp add: keccak_round_def theta_unrolled rho_pi_unrolled chi_unrolled iota_def RC_def rotl_eval)

lemma empty_round_23:
  "keccak_round 23
     [0xB776C454221536A0, 0x2CC562AAB665C6AC, 0x96854EC3F757A478, 0xBAF0E8C55C739718,
     0x8263456BA091515A, 0x76626AC752F6F6AA, 0x4E6FB95A23376335, 0x6DD890FA0AC6380B,
     0xE63E22AC7DE0AF2A, 0x9ECFC93F76589EEC, 0xA0B01B1261AB6A01, 0xAE3D547551959057,
     0x16E9BF1D538D80D, 0x2167900EA6E5A7BE, 0x7A406941F60CF465, 0xD3881A5CA182984D,
     0xBD5F1E80592136C8, 0x9B8A935BA0DDF5B0, 0x242C1ECEF1782E23, 0xF105204297C34BE6,
     0xCEFB15EC5F89B0AD, 0xDA47883FE04394BD, 0x668C64884A0EC53F, 0xA8511C9CFC53E49B,
     0xF48EFCF3A69E3A4E] =
     [0x3C23F7860146D2C5, 0xC003C7DCB27D7E92, 0x3B2782CA53B600E5, 0x70A4855D04D8FA7B,
     0x74A97CD82C9ABB3D, 0xCB9B1161ECB0A2B9, 0x1F2211C4C0F9ED5C, 0x820DC6175FA24161,
     0x81BABFBCAB8046D2, 0xB1D551B7242B765B, 0x3CF26D5EBA2553E8, 0x3BCE6A98FE5B7210,
     0xBA7D9FA73545D2A2, 0xFA0D3CD3B03B15BB, 0x3BFED7EB12C7CE09, 0xEB829C854E19A949,
     0x1B5D1A6545A611FF, 0x64146F400E16B72, 0xFE8734E16471AB9F, 0x9C3088BDEEBB0936,
     0xDEE8B8ECA7B2ACBA, 0x163B62B71DCF4521, 0x6B571B9910726D91, 0xB7FA22CF622318BE,
     0xA3FE1AF7779FAFD7]"
  by (simp add: keccak_round_def theta_unrolled rho_pi_unrolled chi_unrolled iota_def RC_def rotl_eval)

lemma empty_permuted:
  "keccak_f
     [1, 0, 0, 0, 0, 0, 0, 0, 0, 0, 0, 0, 0, 0, 0, 0, 0x8000000000000000, 0, 0, 0, 0, 0, 0,
     0, 0] =
     [0x3C23F7860146D2C5, 0xC003C7DCB27D7E92, 0x3B2782CA53B600E5, 0x70A4855D04D8FA7B,
     0x74A97CD82C9ABB3D, 0xCB9B1161ECB0A2B9, 0x1F2211C4C0F9ED5C, 0x820DC6175FA24161,
     0x81BABFBCAB8046D2, 0xB1D551B7242B765B, 0x3CF26D5EBA2553E8, 0x3BCE6A98FE5B7210,
     0xBA7D9FA73545D2A2, 0xFA0D3CD3B03B15BB, 0x3BFED7EB12C7CE09, 0xEB829C854E19A949,
     0x1B5D1A6545A611FF, 0x64146F400E16B72, 0xFE8734E16471AB9F, 0x9C3088BDEEBB0936,
     0xDEE8B8ECA7B2ACBA, 0x163B62B71DCF4521, 0x6B571B9910726D91, 0xB7FA22CF622318BE,
     0xA3FE1AF7779FAFD7]"
  by (simp only: keccak_f_unrolled
      empty_round_0 empty_round_1 empty_round_2 empty_round_3 empty_round_4
      empty_round_5 empty_round_6 empty_round_7 empty_round_8 empty_round_9
      empty_round_10 empty_round_11 empty_round_12 empty_round_13 empty_round_14
      empty_round_15 empty_round_16 empty_round_17 empty_round_18 empty_round_19
      empty_round_20 empty_round_21 empty_round_22 empty_round_23)

lemma empty_squeeze:
  "take 32 (bytes_of_lanes
     [0x3C23F7860146D2C5, 0xC003C7DCB27D7E92, 0x3B2782CA53B600E5, 0x70A4855D04D8FA7B,
     0x74A97CD82C9ABB3D, 0xCB9B1161ECB0A2B9, 0x1F2211C4C0F9ED5C, 0x820DC6175FA24161,
     0x81BABFBCAB8046D2, 0xB1D551B7242B765B, 0x3CF26D5EBA2553E8, 0x3BCE6A98FE5B7210,
     0xBA7D9FA73545D2A2, 0xFA0D3CD3B03B15BB, 0x3BFED7EB12C7CE09, 0xEB829C854E19A949,
     0x1B5D1A6545A611FF, 0x64146F400E16B72, 0xFE8734E16471AB9F, 0x9C3088BDEEBB0936,
     0xDEE8B8ECA7B2ACBA, 0x163B62B71DCF4521, 0x6B571B9910726D91, 0xB7FA22CF622318BE,
     0xA3FE1AF7779FAFD7]) =
     [0xC5, 0xD2, 0x46, 1, 0x86, 0xF7, 0x23, 0x3C, 0x92, 0x7E, 0x7D, 0xB2, 0xDC, 0xC7, 3,
     0xC0, 0xE5, 0, 0xB6, 0x53, 0xCA, 0x82, 0x27, 0x3B, 0x7B, 0xFA, 0xD8, 4, 0x5D, 0x85,
     0xA4, 0x70]"
  by code_simp

lemma empty_digest:
  "Sum256 [] =
     Some [0xC5, 0xD2, 0x46, 1, 0x86, 0xF7, 0x23, 0x3C, 0x92, 0x7E, 0x7D, 0xB2, 0xDC, 0xC7,
          3, 0xC0, 0xE5, 0, 0xB6, 0x53, 0xCA, 0x82, 0x27, 0x3B, 0x7B, 0xFA, 0xD8, 4, 0x5D,
          0x85, 0xA4, 0x70]"
proof -
  have "spec_absorb (replicate 200 0) [] = (replicate 200 0, [])"
    by (rule spec_absorb_short) (simp add: rate_def)
  then show ?thesis
    by (simp only: Sum256_eq spec_Sum256_def prod.case Let_def spec_finalize_def keccakF1600_def
        empty_lanes empty_permuted empty_squeeze)
qed

lemma hello_lanes:
  "lanes_of_bytes (spec_pad (xor_bytes (replicate 200 0) (ascii ''hello'')) (length (ascii ''hello''))) =
     [0x16F6C6C6568, 0, 0, 0, 0, 0, 0, 0, 0, 0, 0, 0, 0, 0, 0, 0, 0x8000000000000000, 0, 0,
     0, 0, 0, 0, 0, 0]"
  by code_simp

lemma hello_round_0:
  "keccak_round 0
     [0x16F6C6C6568, 0, 0, 0, 0, 0, 0, 0, 0, 0, 0, 0, 0, 0, 0, 0, 0x8000000000000000, 0, 0,
     0, 0, 0, 0, 0, 0] =
     [0x56F6C6C6568, 0xC65680000016F6C6, 0xB7B23632B40000, 0x1494C486569,
     0xC6E1363632A69286, 8, 0xA1409D8CAD2DED85, 0x1000000000000008, 0x8CAD1000002DED8D,
     0x3DED8D8CAD000000, 0x2DED8D8CAD0, 0x2DED8D8CAD020, 0x40000, 0x2DC0600121AD0, 0x40020,
     0xF6C37BF73195A016, 0x1000004000, 0x5BDB1B195A000, 0xF6C6C65680004016, 0,
     0x4C65680000016F6C, 0x20000000000, 0x6C656DBDB1B0FACC, 0x2000020000000000,
     0x5BDB1B195A0]"
  by (simp add: keccak_round_def theta_unrolled rho_pi_unrolled chi_unrolled iota_def RC_def rotl_eval)

lemma hello_round_1:
  "keccak_round 1
     [0x56F6C6C6568, 0xC65680000016F6C6, 0xB7B23632B40000, 0x1494C486569,
     0xC6E1363632A69286, 8, 0xA1409D8CAD2DED85, 0x1000000000000008, 0x8CAD1000002DED8D,
     0x3DED8D8CAD000000, 0x2DED8D8CAD0, 0x2DED8D8CAD020, 0x40000, 0x2DC0600121AD0, 0x40020,
     0xF6C37BF73195A016, 0x1000004000, 0x5BDB1B195A000, 0xF6C6C65680004016, 0,
     0x4C65680000016F6C, 0x20000000000, 0x6C656DBDB1B0FACC, 0x2000020000000000,
     0x5BDB1B195A0] =
     [0xB554397A9B9CEF02, 0x7F88BE440DBFE4C1, 0x907B371F169BF5A8, 0x3878F66293F7B53B,
     0xB821BE5A5C64B9B, 0xFA06F392C8AA31F6, 0x9306BB102971288A, 0x8C7DC510A8D75A3D,
     0xD2A3C8631A2C7D43, 0x767477B878C4D6B5, 0xEF5A261F02C570D, 0xF09449B94389EDDB,
     0x36C3419DFBB5D984, 0x2DA134E6371BB527, 0xA33F4A5FFD326DF1, 0x379E2C698F4A21BD,
     0xC8411A8795D1A81D, 0x60B368FB30799B18, 0xA1672E444C93E948, 0x81ABDE9E647F7B14,
     0xED549240F76A0BEA, 0x6061158756397ED4, 0x1D898BDF92B1CE62, 0x3BBFBD97BB4E7B28,
     0xE20694C883E111D]"
  by (simp add: keccak_round_def theta_unrolled rho_pi_unrolled chi_unrolled iota_def RC_def rotl_eval)

lemma hello_round_2:
  "keccak_round 2
     [0xB554397A9B9CEF02, 0x7F88BE440DBFE4C1, 0x907B371F169BF5A8, 0x3878F66293F7B53B,
     0xB821BE5A5C64B9B, 0xFA06F392C8AA31F6, 0x9306BB102971288A, 0x8C7DC510A8D75A3D,
     0xD2A3C8631A2C7D43, 0x767477B878C4D6B5, 0xEF5A261F02C570D, 0xF09449B94389EDDB,
     0x36C3419DFBB5D984, 0x2DA134E6371BB527, 0xA33F4A5FFD326DF1, 0x379E2C698F4A21BD,
     0xC8411A8795D1A81D, 0x60B368FB30799B18, 0xA1672E444C93E948, 0x81ABDE9E647F7B14,
     0xED549240F76A0BEA, 0x6061158756397ED4, 0x1D898BDF92B1CE62, 0x3BBFBD97BB4E7B28,
     0xE20694C883E111D] =
     [0xF623EF5BFB21FC4, 0x3CBD4A4B4CA7D240, 0x5A8D0C0DEF959E3D, 0x22464A1FE14A818A,
     0x47D35DDDEE1299D6, 0xDCC7DB2FCCD02356, 0x3D78664FA8D990C4, 0x3C4FE312B815B7A9,
     0x752CBFAEC5F95006, 0x8246FF8B75A56C68, 0xB427011270EF337D, 0xD0C74DFF869E86C0,
     0xE3949347299DB78F, 0x54F8F9991613749A, 0x51A5ED747E2F950A, 0x866CF75C8F275F7C,
     0xD8425B18AA136972, 0xFFB915D344E28719, 0xCAE3167921CF6F6, 0xB7CECDEEB0CC9CED,
     0xCAA11086890EF723, 0x29ADCC4EA723F21, 0x3E22C0C42EBD3FA0, 0x6CABA09BD0755516,
     0x53DB65703FB666A5]"
  by (simp add: keccak_round_def theta_unrolled rho_pi_unrolled chi_unrolled iota_def RC_def rotl_eval)

lemma hello_round_3:
  "keccak_round 3
     [0xF623EF5BFB21FC4, 0x3CBD4A4B4CA7D240, 0x5A8D0C0DEF959E3D, 0x22464A1FE14A818A,
     0x47D35DDDEE1299D6, 0xDCC7DB2FCCD02356, 0x3D78664FA8D990C4, 0x3C4FE312B815B7A9,
     0x752CBFAEC5F95006, 0x8246FF8B75A56C68, 0xB427011270EF337D, 0xD0C74DFF869E86C0,
     0xE3949347299DB78F, 0x54F8F9991613749A, 0x51A5ED747E2F950A, 0x866CF75C8F275F7C,
     0xD8425B18AA136972, 0xFFB915D344E28719, 0xCAE3167921CF6F6, 0xB7CECDEEB0CC9CED,
     0xCAA11086890EF723, 0x29ADCC4EA723F21, 0x3E22C0C42EBD3FA0, 0x6CABA09BD0755516,
     0x53DB65703FB666A5] =
     [0x88B2B50618516616, 0x1DAB5BFE76FD3855, 0x64E3A17A003E9FE0, 0xAA58777EA5862508,
     0x28A119F5C8E0C1FD, 0x1A05CC2DA8780BCA, 0x27F06A025EE9E476, 0x93B377ABC4D12977,
     0xF074D756C11A9226, 0x3BEAC1FB2A36A03F, 0x6DF23F0FC36E986A, 0xACDFB15E8D9F163C,
     0x752FA9FBA2E2797B, 0xD7563AC98CDD3AAB, 0xEFDF1BED2746B050, 0x20CC90264B160631,
     0x1317D91BB13E05F8, 0x44B1E2A8D9B03388, 0x440AD1F88FF71D97, 0x5FD9658F1878FB88,
     0xF4183E729918C073, 0xA669C4AD65022260, 0xD7D66E1252794014, 0xA9475D837B99DD60,
     0x8B5AF42F59C96856]"
  by (simp add: keccak_round_def theta_unrolled rho_pi_unrolled chi_unrolled iota_def RC_def rotl_eval)

lemma hello_round_4:
  "keccak_round 4
     [0x88B2B50618516616, 0x1DAB5BFE76FD3855, 0x64E3A17A003E9FE0, 0xAA58777EA5862508,
     0x28A119F5C8E0C1FD, 0x1A05CC2DA8780BCA, 0x27F06A025EE9E476, 0x93B377ABC4D12977,
     0xF074D756C11A9226, 0x3BEAC1FB2A36A03F, 0x6DF23F0FC36E986A, 0xACDFB15E8D9F163C,
     0x752FA9FBA2E2797B, 0xD7563AC98CDD3AAB, 0xEFDF1BED2746B050, 0x20CC90264B160631,
     0x1317D91BB13E05F8, 0x44B1E2A8D9B03388, 0x440AD1F88FF71D97, 0x5FD9658F1878FB88,
     0xF4183E729918C073, 0xA669C4AD65022260, 0xD7D66E1252794014, 0xA9475D837B99DD60,
     0x8B5AF42F59C96856] =
     [0xA750197DA795B2C7, 0x1F7B28E5217512C2, 0x5860C56CC8DDD75B, 0xBEAD9204C0EC77D4,
     0x9433235D10F32F11, 0x9480B2DB0FB6E206, 0xB15A48EA70999FDF, 0x3682E3A520320FC0,
     0xD9DD834EF64DB97F, 0x8E8F13E6E3320B0E, 0x9C14BD5A9952A641, 0x48D0A2A10EC6973C,
     0xAC96BF1DA72AAD5A, 0xEDB3F440DDE9926A, 0x5986BBF822C36EF5, 0x7822F80319F90C6D,
     0xF26D68A7DC7B156E, 0xFE500EDF69FEAEF0, 0xDD56C67D8A14738A, 0xBA1718ED29C5FE5,
     0x7958807AD7197B08, 0x676A23D238825E15, 0xF3CC6C0C47E7EEBE, 0xF1E62698DD84C078,
     0xB9270EF05F8BA187]"
  by (simp add: keccak_round_def theta_unrolled rho_pi_unrolled chi_unrolled iota_def RC_def rotl_eval)

lemma hello_round_5:
  "keccak_round 5
     [0xA750197DA795B2C7, 0x1F7B28E5217512C2, 0x5860C56CC8DDD75B, 0xBEAD9204C0EC77D4,
     0x9433235D10F32F11, 0x9480B2DB0FB6E206, 0xB15A48EA70999FDF, 0x3682E3A520320FC0,
     0xD9DD834EF64DB97F, 0x8E8F13E6E3320B0E, 0x9C14BD5A9952A641, 0x48D0A2A10EC6973C,
     0xAC96BF1DA72AAD5A, 0xEDB3F440DDE9926A, 0x5986BBF822C36EF5, 0x7822F80319F90C6D,
     0xF26D68A7DC7B156E, 0xFE500EDF69FEAEF0, 0xDD56C67D8A14738A, 0xBA1718ED29C5FE5,
     0x7958807AD7197B08, 0x676A23D238825E15, 0xF3CC6C0C47E7EEBE, 0xF1E62698DD84C078,
     0xB9270EF05F8BA187] =
     [0xF100DA6B2CCE6FDA, 0xA75A18629F10241B, 0x54963F8420A90B2A, 0x200A84866EBE1C8B,
     0x33D7071C425FC08A, 0xD39160B5292B4BF7, 0xBDFA04FE3767440E, 0x7223D30497BDA3DC,
     0xDFF2BA54F706DC0D, 0x59B191CB46F4BC38, 0x46297559533BB0FC, 0xE0392A7892112772,
     0x6B4AADB579C2E5CB, 0xEE816AC56D9B5DA0, 0xBF53FA8930D1B327, 0x7638EE5CDB9BEF39,
     0x425A16AC2D15B512, 0x5C788AFA58F70AFA, 0x4E6DD5C41A9F64E1, 0xE69A7695C100639E,
     0x95DD114B468FD419, 0xF0CE0644BB99CD36, 0xD4434BF154314FA9, 0x15FCB246E63E1664,
     0x38344B640BBEDADF]"
  by (simp add: keccak_round_def theta_unrolled rho_pi_unrolled chi_unrolled iota_def RC_def rotl_eval)

lemma hello_round_6:
  "keccak_round 6
     [0xF100DA6B2CCE6FDA, 0xA75A18629F10241B, 0x54963F8420A90B2A, 0x200A84866EBE1C8B,
     0x33D7071C425FC08A, 0xD39160B5292B4BF7, 0xBDFA04FE3767440E, 0x7223D30497BDA3DC,
     0xDFF2BA54F706DC0D, 0x59B191CB46F4BC38, 0x46297559533BB0FC, 0xE0392A7892112772,
     0x6B4AADB579C2E5CB, 0xEE816AC56D9B5DA0, 0xBF53FA8930D1B327, 0x7638EE5CDB9BEF39,
     0x425A16AC2D15B512, 0x5C788AFA58F70AFA, 0x4E6DD5C41A9F64E1, 0xE69A7695C100639E,
     0x95DD114B468FD419, 0xF0CE0644BB99CD36, 0xD4434BF154314FA9, 0x15FCB246E63E1664,
     0x38344B640BBEDADF] =
     [0xCA8D937917FA6F28, 0x4B32AB52E3D23656, 0x6A7E70BEE560D220, 0xBC256225A5ABB37E,
     0x13460D283AA6CF19, 0xBD102EDBFF738B3C, 0x37F916B08301F635, 0xED734775986E14D6,
     0x9547E755C6CC2655, 0x83DE517AFDBB81F5, 0x571C566FE99D36FF, 0x7FA4A8848713EE4B,
     0x7B778151AC54C7C3, 0x8C2C705E9702D8AD, 0x9B570EFF652CF970, 0x52A006A53DDC012E,
     0xA2301ADC90195078, 0xB66B5B66ECE15D92, 0xA1C6338A255BC8DE, 0x3D336C1A7DA76E3,
     0xE053EC19A741AA08, 0xF148C44EE9C78F34, 0x321BBD900DC16D5, 0x15DCD2D355F7E679,
     0xF5ECDAE3C9698D7F]"
  by (simp add: keccak_round_def theta_unrolled rho_pi_unrolled chi_unrolled iota_def RC_def rotl_eval)

lemma hello_round_7:
  "keccak_round 7
     [0xCA8D937917FA6F28, 0x4B32AB52E3D23656, 0x6A7E70BEE560D220, 0xBC256225A5ABB37E,
     0x13460D283AA6CF19, 0xBD102EDBFF738B3C, 0x37F916B08301F635, 0xED734775986E14D6,
     0x9547E755C6CC2655, 0x83DE517AFDBB81F5, 0x571C566FE99D36FF, 0x7FA4A8848713EE4B,
     0x7B778151AC54C7C3, 0x8C2C705E9702D8AD, 0x9B570EFF652CF970, 0x52A006A53DDC012E,
     0xA2301ADC90195078, 0xB66B5B66ECE15D92, 0xA1C6338A255BC8DE, 0x3D336C1A7DA76E3,
     0xE053EC19A741AA08, 0xF148C44EE9C78F34, 0x321BBD900DC16D5, 0x15DCD2D355F7E679,
     0xF5ECDAE3C9698D7F] =
     [0x9154921FA7470033, 0x71A1C47FAF189405, 0xE68AF0E2C14341CA, 0x9252071035A6E303,
     0x53BC9FCC9FC94613, 0xF0079E5819EBC589, 0xFF44E205021348E7, 0x7E0A3350C916C1AC,
     0x47A63044D6F9AEAA, 0x60D3AB1956FA265A, 0x9E06CCC6015EB46E, 0xD0290E83F90AFD27,
     0xDCBBC8FDAE7D5CB7, 0xE120551605CF59FA, 0x74D44CF9EB82BE32, 0xE45F4A6C493A30F3,
     0xF8EA5F68A9A219D0, 0xDA97FDD018AC1DEA, 0xB8765FB2A55C42A3, 0x122718FBED31DF34,
     0xEE9440F81CB71940, 0x9758C36EBBE2D5EA, 0x7B94C497738C3D8E, 0xC54F8C37A2E5B69A,
     0xD46A2ED20101CECD]"
  by (simp add: keccak_round_def theta_unrolled rho_pi_unrolled chi_unrolled iota_def RC_def rotl_eval)

lemma hello_round_8:
  "keccak_round 8
     [0x9154921FA7470033, 0x71A1C47FAF189405, 0xE68AF0E2C14341CA, 0x9252071035A6E303,
     0x53BC9FCC9FC94613, 0xF0079E5819EBC589, 0xFF44E205021348E7, 0x7E0A3350C916C1AC,
     0x47A63044D6F9AEAA, 0x60D3AB1956FA265A, 0x9E06CCC6015EB46E, 0xD0290E83F90AFD27,
     0xDCBBC8FDAE7D5CB7, 0xE120551605CF59FA, 0x74D44CF9EB82BE32, 0xE45F4A6C493A30F3,
     0xF8EA5F68A9A219D0, 0xDA97FDD018AC1DEA, 0xB8765FB2A55C42A3, 0x122718FBED31DF34,
     0xEE9440F81CB71940, 0x9758C36EBBE2D5EA, 0x7B94C497738C3D8E, 0xC54F8C37A2E5B69A,
     0xD46A2ED20101CECD] =
     [0x535FF614B5797C95, 0xDAACB40EA6C3832B, 0xFB4DE6E1756C60F3, 0x462E9A24622ED41F,
     0xE4F853FA71A1E8E, 0x3673912327496A12, 0xF846B2D7EBF4BB10, 0xC04B7BF67A374097,
     0x934340E39F25B3B8, 0x722200A8B647C23C, 0x9C9C54932AE8A212, 0xFEED1F9B23BB31F7,
     0x22ABE070847FCFBB, 0xF7AF93FB6C83D9B2, 0xBF6C72D475E33798, 0x552F09136BB405B,
     0xBFCD5F0B38CB8A35, 0x34A18F05B5E2ED7B, 0x10002ECA9B69BD19, 0x90AE946234B274F1,
     0x73AC8B449160D9B1, 0xDD58AD4B8B085D76, 0xA867EA4A04145B67, 0x214B564A399F2636,
     0x2E8985A00CB2F3DC]"
  by (simp add: keccak_round_def theta_unrolled rho_pi_unrolled chi_unrolled iota_def RC_def rotl_eval)

lemma hello_round_9:
  "keccak_round 9
     [0x535FF614B5797C95, 0xDAACB40EA6C3832B, 0xFB4DE6E1756C60F3, 0x462E9A24622ED41F,
     0xE4F853FA71A1E8E, 0x3673912327496A12, 0xF846B2D7EBF4BB10, 0xC04B7BF67A374097,
     0x934340E39F25B3B8, 0x722200A8B647C23C, 0x9C9C54932AE8A212, 0xFEED1F9B23BB31F7,
     0x22ABE070847FCFBB, 0xF7AF93FB6C83D9B2, 0xBF6C72D475E33798, 0x552F09136BB405B,
     0xBFCD5F0B38CB8A35, 0x34A18F05B5E2ED7B, 0x10002ECA9B69BD19, 0x90AE946234B274F1,
     0x73AC8B449160D9B1, 0xDD58AD4B8B085D76, 0xA867EA4A04145B67, 0x214B564A399F2636,
     0x2E8985A00CB2F3DC] =
     [0x13DCC6904018BCEF, 0x2E5F9FFB6C22CC14, 0x63E685C97A4259DE, 0x2E435E67CAD541D7,
     0x293D813F0FA108F7, 0xE88055903D88CF4, 0x1D6B34BB5F33B173, 0xE0DF68BA755B29E6,
     0xEA99A65384E54E4D, 0x975F5EE4CBF38AF9, 0x3F6B80DF06C83B2F, 0x6ADDC739613F3F06,
     0xE7DE9BB4DFB5D8AF, 0xAB5D3C625243059D, 0xAF95BE244390CEAE, 0xCC475A0E48AEF4A2,
     0x14AAB6ABEB4A586C, 0xADDE81A732861CCA, 0x87BE9520A4C09690, 0xE9D6CD2247BA3BFB,
     0x5DB357B7EBD67D26, 0xAF4B2C8678E6F18, 0xFA57F7838D6C124, 0x2D928C0ED280DAA3,
     0x414775E382B70EA0]"
  by (simp add: keccak_round_def theta_unrolled rho_pi_unrolled chi_unrolled iota_def RC_def rotl_eval)

lemma hello_round_10:
  "keccak_round 10
     [0x13DCC6904018BCEF, 0x2E5F9FFB6C22CC14, 0x63E685C97A4259DE, 0x2E435E67CAD541D7,
     0x293D813F0FA108F7, 0xE88055903D88CF4, 0x1D6B34BB5F33B173, 0xE0DF68BA755B29E6,
     0xEA99A65384E54E4D, 0x975F5EE4CBF38AF9, 0x3F6B80DF06C83B2F, 0x6ADDC739613F3F06,
     0xE7DE9BB4DFB5D8AF, 0xAB5D3C625243059D, 0xAF95BE244390CEAE, 0xCC475A0E48AEF4A2,
     0x14AAB6ABEB4A586C, 0xADDE81A732861CCA, 0x87BE9520A4C09690, 0xE9D6CD2247BA3BFB,
     0x5DB357B7EBD67D26, 0xAF4B2C8678E6F18, 0xFA57F7838D6C124, 0x2D928C0ED280DAA3,
     0x414775E382B70EA0] =
     [0x65D856DB5F4B0917, 0x9D02663B9726599F, 0xCC6E9040A273F6A3, 0xC81BB2C0AFC47AD5,
     0x1572093953DD281F, 0x3A5370D6DDBD2790, 0xE83773548BC1E629, 0x53745E178CD407F3,
     0x6716AD0E84A69758, 0xDC4C37BA4409172A, 0x214BC1CA7D5F50AA, 0xEC6B90FEBDB480C8,
     0x1C6A1110B5BB18A8, 0xEA8685292C78EE49, 0x745447223B7D88EC, 0xF70D96D541051658,
     0xCDB1F256AA82E5A0, 0xBA7FDF78D559D710, 0xE9E4844C668B349F, 0x25A9A3B4E28D237B,
     0x2B810C481821A83A, 0x2B27663E116DC9E9, 0x3157ED8E946715F2, 0x410EE3749285AB6F,
     0x9035D15ED3D45EA8]"
  by (simp add: keccak_round_def theta_unrolled rho_pi_unrolled chi_unrolled iota_def RC_def rotl_eval)

lemma hello_round_11:
  "keccak_round 11
     [0x65D856DB5F4B0917, 0x9D02663B9726599F, 0xCC6E9040A273F6A3, 0xC81BB2C0AFC47AD5,
     0x1572093953DD281F, 0x3A5370D6DDBD2790, 0xE83773548BC1E629, 0x53745E178CD407F3,
     0x6716AD0E84A69758, 0xDC4C37BA4409172A, 0x214BC1CA7D5F50AA, 0xEC6B90FEBDB480C8,
     0x1C6A1110B5BB18A8, 0xEA8685292C78EE49, 0x745447223B7D88EC, 0xF70D96D541051658,
     0xCDB1F256AA82E5A0, 0xBA7FDF78D559D710, 0xE9E4844C668B349F, 0x25A9A3B4E28D237B,
     0x2B810C481821A83A, 0x2B27663E116DC9E9, 0x3157ED8E946715F2, 0x410EE3749285AB6F,
     0x9035D15ED3D45EA8] =
     [0xE224EE21F54BC730, 0xB656DBCDD72D196, 0x6112A7AD8F5A7639, 0x6F428D11557D2B0F,
     0x308C1AFA5894D6F3, 0xC48037C7BBB250BA, 0x431F8401B8174A5A, 0x21EFCB8AABAFE6A2,
     0xA1B13ED3A8D4703, 0x9B8400D90D1B4C94, 0x5FEDE2A7847BDB48, 0xDFC99C001052BB7D,
     0x9EDB76039EA647EC, 0x1C9FDE5C88BB5CCC, 0x13C4D6FD017B53A9, 0x97ED911481EE1172,
     0x5158BF0ED970847F, 0x399BB4A5F50A8D7E, 0x84B91543DAA317D8, 0x214894500162C099,
     0xCA197C4555B9B33D, 0x298B092B15EE6A05, 0xDD4123F2DE21024A, 0x3E42681465459E6,
     0x464D01360E937ECA]"
  by (simp add: keccak_round_def theta_unrolled rho_pi_unrolled chi_unrolled iota_def RC_def rotl_eval)

lemma hello_round_12:
  "keccak_round 12
     [0xE224EE21F54BC730, 0xB656DBCDD72D196, 0x6112A7AD8F5A7639, 0x6F428D11557D2B0F,
     0x308C1AFA5894D6F3, 0xC48037C7BBB250BA, 0x431F8401B8174A5A, 0x21EFCB8AABAFE6A2,
     0xA1B13ED3A8D4703, 0x9B8400D90D1B4C94, 0x5FEDE2A7847BDB48, 0xDFC99C001052BB7D,
     0x9EDB76039EA647EC, 0x1C9FDE5C88BB5CCC, 0x13C4D6FD017B53A9, 0x97ED911481EE1172,
     0x5158BF0ED970847F, 0x399BB4A5F50A8D7E, 0x84B91543DAA317D8, 0x214894500162C099,
     0xCA197C4555B9B33D, 0x298B092B15EE6A05, 0xDD4123F2DE21024A, 0x3E42681465459E6,
     0x464D01360E937ECA] =
     [0x798EF4E8170D3B31, 0x615C3B35A08F6827, 0xAC26D46549D17A89, 0xE83F9ABCDC143BF5,
     0x77DC132417C9FC2A, 0x2129B8F67ECBC323, 0xF1F2B0CC7914F2E5, 0xF78981A131698817,
     0x9D4E9901A2DFF5BA, 0x4176E0DD531E0263, 0xA54740D1E2AD9DFA, 0xEE7BB5B94BF5791A,
     0xBC6F766F69AFE380, 0x9C091245F7436EAE, 0xC109429579CF4C42, 0xC1F44F193B2A2C3F,
     0xF6F7AA4058AE912D, 0x2341DEA1DFD4F832, 0x888CCC4DE33E55E7, 0xA08D2A1CC2E5B62E,
     0x5EE924FC7062D140, 0x7C416BBB3F95DFA8, 0x3471208237241F8B, 0x6D36D1A19ADD3A11,
     0xC2398D722020FE81]"
  by (simp add: keccak_round_def theta_unrolled rho_pi_unrolled chi_unrolled iota_def RC_def rotl_eval)

lemma hello_round_13:
  "keccak_round 13
     [0x798EF4E8170D3B31, 0x615C3B35A08F6827, 0xAC26D46549D17A89, 0xE83F9ABCDC143BF5,
     0x77DC132417C9FC2A, 0x2129B8F67ECBC323, 0xF1F2B0CC7914F2E5, 0xF78981A131698817,
     0x9D4E9901A2DFF5BA, 0x4176E0DD531E0263, 0xA54740D1E2AD9DFA, 0xEE7BB5B94BF5791A,
     0xBC6F766F69AFE380, 0x9C091245F7436EAE, 0xC109429579CF4C42, 0xC1F44F193B2A2C3F,
     0xF6F7AA4058AE912D, 0x2341DEA1DFD4F832, 0x888CCC4DE33E55E7, 0xA08D2A1CC2E5B62E,
     0x5EE924FC7062D140, 0x7C416BBB3F95DFA8, 0x3471208237241F8B, 0x6D36D1A19ADD3A11,
     0xC2398D722020FE81] =
     [0xE2DA151D227B10E5, 0x1863F36C67EF74A9, 0x2D4FCA8D448BEB61, 0xBC06A5D6E37BD369,
     0xDBED1621C4AA6641, 0xDD99CF81897F7DBF, 0x31C091B685AE84A2, 0xC79D1D64BEC96FB9,
     0x5C1AADBCDDE57F48, 0x3B70E8CC40D445DF, 0xC4E3FC0FA6C71D3E, 0xBF11CDE973AEC92E,
     0x93673E9B84B92741, 0x756897BEEBCA2471, 0x2D3D1491DD544CE7, 0x2F1F2030BDD5270A,
     0xBBCFD7CECE15FE76, 0x7E8001E06C6F099D, 0x1C91E53BF483C1D1, 0x6F77FBE56EDC990D,
     0x41A8797DCF94F87A, 0x2223884C077ED1E3, 0xB5BFA38428624BC7, 0xB91841858F5C8A20,
     0xD7755E003184A842]"
  by (simp add: keccak_round_def theta_unrolled rho_pi_unrolled chi_unrolled iota_def RC_def rotl_eval)

lemma hello_round_14:
  "keccak_round 14
     [0xE2DA151D227B10E5, 0x1863F36C67EF74A9, 0x2D4FCA8D448BEB61, 0xBC06A5D6E37BD369,
     0xDBED1621C4AA6641, 0xDD99CF81897F7DBF, 0x31C091B685AE84A2, 0xC79D1D64BEC96FB9,
     0x5C1AADBCDDE57F48, 0x3B70E8CC40D445DF, 0xC4E3FC0FA6C71D3E, 0xBF11CDE973AEC92E,
     0x93673E9B84B92741, 0x756897BEEBCA2471, 0x2D3D1491DD544CE7, 0x2F1F2030BDD5270A,
     0xBBCFD7CECE15FE76, 0x7E8001E06C6F099D, 0x1C91E53BF483C1D1, 0x6F77FBE56EDC990D,
     0x41A8797DCF94F87A, 0x2223884C077ED1E3, 0xB5BFA38428624BC7, 0xB91841858F5C8A20,
     0xD7755E003184A842] =
     [0x48F138049D42573B, 0x3CCB5C0DB58C4B1A, 0xD1B017EE1DF5EC00, 0x2AB871D79FC9EB74,
     0xB0B79C1AAFF6BB25, 0x13141AEC66D5E65A, 0xC1BD3DF4877692B8, 0xD6C1D3248DD35005,
     0x56483139ED871C96, 0x7BC261BD849C2366, 0xE15905EDF3407C70, 0xCE62C32294BB139A,
     0x6FBB707390E9660D, 0x24FF273B81049555, 0x503F23B8280F2855, 0xB42926BA4899168B,
     0xE312FE8320471FA1, 0xC4B0AFE6A71EB3F9, 0x73CB15B402373812, 0xCFB01E9481DF4FF7,
     0xDC92C6B9634E1EE2, 0x6102E23CCC606F80, 0x6D69B1EBC32A4204, 0xCED2E98A411D9C31,
     0x6B81AEFCB87714D2]"
  by (simp add: keccak_round_def theta_unrolled rho_pi_unrolled chi_unrolled iota_def RC_def rotl_eval)

lemma hello_round_15:
  "keccak_round 15
     [0x48F138049D42573B, 0x3CCB5C0DB58C4B1A, 0xD1B017EE1DF5EC00, 0x2AB871D79FC9EB74,
     0xB0B79C1AAFF6BB25, 0x13141AEC66D5E65A, 0xC1BD3DF4877692B8, 0xD6C1D3248DD35005,
     0x56483139ED871C96, 0x7BC261BD849C2366, 0xE15905EDF3407C70, 0xCE62C32294BB139A,
     0x6FBB707390E9660D, 0x24FF273B81049555, 0x503F23B8280F2855, 0xB42926BA4899168B,
     0xE312FE8320471FA1, 0xC4B0AFE6A71EB3F9, 0x73CB15B402373812, 0xCFB01E9481DF4FF7,
     0xDC92C6B9634E1EE2, 0x6102E23CCC606F80, 0x6D69B1EBC32A4204, 0xCED2E98A411D9C31,
     0x6B81AEFCB87714D2] =
     [0xE70A6A1F3644493A, 0xD40BB41FAC826D4, 0x708D79A191CA4FF0, 0x6CC342C2917B85D5,
     0x2EC642855E94EC66, 0x78B2016E7351C278, 0x55016BB2F5AB0DE5, 0x6310BB9BFA271D25,
     0x6984C6022DD9E90E, 0x87CD299B9D138321, 0x58F7D4D6BED38392, 0x521D96CFEF184F67,
     0x9330CCD98CBE31A3, 0x20CFFBB30676229E, 0x721B141346824BEA, 0xEACC9FE31789560E,
     0x1F7D53A026005CB8, 0x291400FA26140658, 0xDBA64EFCC5E9DFC2, 0xA762379B3030FC51,
     0x1FA46F9F4FD5BAC3, 0x82F5D171959E73F0, 0xF3BAD8009B08DBEF, 0x19353145F3EC094D,
     0x44D951682A71B57C]"
  by (simp add: keccak_round_def theta_unrolled rho_pi_unrolled chi_unrolled iota_def RC_def rotl_eval)

lemma hello_round_16:
  "keccak_round 16
     [0xE70A6A1F3644493A, 0xD40BB41FAC826D4, 0x708D79A191CA4FF0, 0x6CC342C2917B85D5,
     0x2EC642855E94EC66, 0x78B2016E7351C278, 0x55016BB2F5AB0DE5, 0x6310BB9BFA271D25,
     0x6984C6022DD9E90E, 0x87CD299B9D138321, 0x58F7D4D6BED38392, 0x521D96CFEF184F67,
     0x9330CCD98CBE31A3, 0x20CFFBB30676229E, 0x721B141346824BEA, 0xEACC9FE31789560E,
     0x1F7D53A026005CB8, 0x291400FA26140658, 0xDBA64EFCC5E9DFC2, 0xA762379B3030FC51,
     0x1FA46F9F4FD5BAC3, 0x82F5D171959E73F0, 0xF3BAD8009B08DBEF, 0x19353145F3EC094D,
     0x44D951682A71B57C] =
     [0x7210B87F8E823290, 0xC8438CB358B7AE6A, 0xD2D81E76A94C2FB5, 0xA31CA7CD46F69C71,
     0x3AC27D6569663DCB, 0x7ED1CE814692EA02, 0xEE61BF56B9106F8B, 0x7AE127103ACB1176,
     0xD2B43F2BF2590C72, 0x956F22D32329D5A5, 0x1480F3537D9D6AA7, 0xADB73C9D58F16A8E,
     0x66807B8ABF4736A7, 0x37A8C6EB0EAFFD20, 0x56F2D5C105B8A393, 0x84AF8644B13E7DBF,
     0xBFF2B85FF3290C8F, 0x79E6DB34F6CDE054, 0x2248B3092A012CF8, 0xB56278C6EB962B6C,
     0x5A576A5E72A23D5E, 0x6BF30A12EB3E875E, 0xA3090578A52596E6, 0xC75042EFE89F8A1C,
     0x36F4CAE38B6B2BBC]"
  by (simp add: keccak_round_def theta_unrolled rho_pi_unrolled chi_unrolled iota_def RC_def rotl_eval)

lemma hello_round_17:
  "keccak_round 17
     [0x7210B87F8E823290, 0xC8438CB358B7AE6A, 0xD2D81E76A94C2FB5, 0xA31CA7CD46F69C71,
     0x3AC27D6569663DCB, 0x7ED1CE814692EA02, 0xEE61BF56B9106F8B, 0x7AE127103ACB1176,
     0xD2B43F2BF2590C72, 0x956F22D32329D5A5, 0x1480F3537D9D6AA7, 0xADB73C9D58F16A8E,
     0x66807B8ABF4736A7, 0x37A8C6EB0EAFFD20, 0x56F2D5C105B8A393, 0x84AF8644B13E7DBF,
     0xBFF2B85FF3290C8F, 0x79E6DB34F6CDE054, 0x2248B3092A012CF8, 0xB56278C6EB962B6C,
     0x5A576A5E72A23D5E, 0x6BF30A12EB3E875E, 0xA3090578A52596E6, 0xC75042EFE89F8A1C,
     0x36F4CAE38B6B2BBC] =
     [0xFFF079BEC30B7429, 0x37AE7407DCEA2397, 0xD01433BC2DAFC95D, 0xF3C11FBAEC92494B,
     0xAD9687F49D848533, 0x9C78255FD42D831E, 0xE5111963E1AFB81C, 0x7C049F93A20127A4,
     0x56C9305D118FE9, 0x9656C4F35639147B, 0x42E1BAA8F1E90A21, 0xD1313D8E8FE89352,
     0x7FC71AAB8D96A411, 0x4427C37E0AC402BB, 0x308C38FAD03EEF04, 0xBFF72DD68225003,
     0xA1E455239938EBA3, 0x8DB5AFE481DEDA4C, 0x9B239B49AB96F02C, 0x2026918C78D128E2,
     0xB21939B136582629, 0x1330B86B0461EB43, 0x91D6DDA94C22A24A, 0x4CADC8A2ED88FD98,
     0x5A9DEBDD0C5FB048]"
  by (simp add: keccak_round_def theta_unrolled rho_pi_unrolled chi_unrolled iota_def RC_def rotl_eval)

lemma hello_round_18:
  "keccak_round 18
     [0xFFF079BEC30B7429, 0x37AE7407DCEA2397, 0xD01433BC2DAFC95D, 0xF3C11FBAEC92494B,
     0xAD9687F49D848533, 0x9C78255FD42D831E, 0xE5111963E1AFB81C, 0x7C049F93A20127A4,
     0x56C9305D118FE9, 0x9656C4F35639147B, 0x42E1BAA8F1E90A21, 0xD1313D8E8FE89352,
     0x7FC71AAB8D96A411, 0x4427C37E0AC402BB, 0x308C38FAD03EEF04, 0xBFF72DD68225003,
     0xA1E455239938EBA3, 0x8DB5AFE481DEDA4C, 0x9B239B49AB96F02C, 0x2026918C78D128E2,
     0xB21939B136582629, 0x1330B86B0461EB43, 0x91D6DDA94C22A24A, 0x4CADC8A2ED88FD98,
     0x5A9DEBDD0C5FB048] =
     [0x64220306FBEEA030, 0x376B972F935B1140, 0xAD1BB06D1378B202, 0x5B074A6541DE6F3B,
     0x3CAFBC325BF65EAE, 0xBAD6D9649DFA3D00, 0xAADDF47CFCEC653D, 0x91080B00996BE587,
     0x236896A042E3AF42, 0x3C373D1EB128E558, 0xF6849501D5FF50E4, 0x49224B99108835B3,
     0xD65635F832D07B05, 0x671D79F456FA2CF1, 0x54F186B42F2A46E, 0x10ED10D43BB7B8DC,
     0xCF9F50F453A4CB7E, 0x6C24B7A0469ECE59, 0xCFB1AA9CAC965694, 0xF662BF27F3FC1420,
     0xAA44E8B8F82A0489, 0xECD3020678A64FA9, 0x560A3B7453F24326, 0x2749ACB9081A6AB6,
     0x16C875738DF475B8]"
  by (simp add: keccak_round_def theta_unrolled rho_pi_unrolled chi_unrolled iota_def RC_def rotl_eval)

lemma hello_round_19:
  "keccak_round 19
     [0x64220306FBEEA030, 0x376B972F935B1140, 0xAD1BB06D1378B202, 0x5B074A6541DE6F3B,
     0x3CAFBC325BF65EAE, 0xBAD6D9649DFA3D00, 0xAADDF47CFCEC653D, 0x91080B00996BE587,
     0x236896A042E3AF42, 0x3C373D1EB128E558, 0xF6849501D5FF50E4, 0x49224B99108835B3,
     0xD65635F832D07B05, 0x671D79F456FA2CF1, 0x54F186B42F2A46E, 0x10ED10D43BB7B8DC,
     0xCF9F50F453A4CB7E, 0x6C24B7A0469ECE59, 0xCFB1AA9CAC965694, 0xF662BF27F3FC1420,
     0xAA44E8B8F82A0489, 0xECD3020678A64FA9, 0x560A3B7453F24326, 0x2749ACB9081A6AB6,
     0x16C875738DF475B8] =
     [0x6E65E215DDB1140A, 0x5A71998C016FAD7C, 0xF0F00F6048CB1D1F, 0xDFB42E40696BA002,
     0x7F0E7E9CF1CA7840, 0xD602002C441868F0, 0x1C6A045F6F74E9EF, 0xA2917359FD852653,
     0x8B230CB25C7F6511, 0x4890E83D97AD84E2, 0xE6A73E77E7F4F65, 0x2A1DC14BB164F2E6,
     0xA22AF79E331BBA, 0x5BF26DE26B23CD7C, 0x4E6B9DDF42EAB2A7, 0x47F2CFACBB7CA609,
     0x7A443B2B50B76A6E, 0xBFC554EE0E1E70EF, 0x479AFB7A757EB8FC, 0x7031C81BDF8ABD41,
     0xDB6A07DB13E8513, 0xE0CE08D2324CC7B, 0x81A9E3E2B57A21FD, 0x549CFF22602F6E0B,
     0x297A9AA90C3CF537]"
  by (simp add: keccak_round_def theta_unrolled rho_pi_unrolled chi_unrolled iota_def RC_def rotl_eval)

lemma hello_round_20:
  "keccak_round 20
     [0x6E65E215DDB1140A, 0x5A71998C016FAD7C, 0xF0F00F6048CB1D1F, 0xDFB42E40696BA002,
     0x7F0E7E9CF1CA7840, 0xD602002C441868F0, 0x1C6A045F6F74E9EF, 0xA2917359FD852653,
     0x8B230CB25C7F6511, 0x4890E83D97AD84E2, 0xE6A73E77E7F4F65, 0x2A1DC14BB164F2E6,
     0xA22AF79E331BBA, 0x5BF26DE26B23CD7C, 0x4E6B9DDF42EAB2A7, 0x47F2CFACBB7CA609,
     0x7A443B2B50B76A6E, 0xBFC554EE0E1E70EF, 0x479AFB7A757EB8FC, 0x7031C81BDF8ABD41,
     0xDB6A07DB13E8513, 0xE0CE08D2324CC7B, 0x81A9E3E2B57A21FD, 0x549CFF22602F6E0B,
     0x297A9AA90C3CF537] =
     [0x6A53E5A4E3103738, 0x1AA01AF6D985A38, 0x1EE9D40551FAFF62, 0x50217298CE9F49AC,
     0x8AD7A50F02247B66, 0xB1394D500FC77F71, 0xF784377FF70EF707, 0x764936B715C80EA5,
     0x32742A7A4ED035E2, 0xF2A40C6E21F3F191, 0x8EED480D8D5EBE7D, 0x70DF9FEE9205060,
     0x6C2AAA50F66C663C, 0xE1B04C46D5505AB4, 0xDF20CA86EEA036D7, 0x5B4F25FD94DD726E,
     0x2FB4FE3084CC3A5C, 0x26AA40531906AC2D, 0xF0A43A0D6A1E79EA, 0xADC98FAD1B1E4983,
     0xA63A85E395BEE872, 0x24D21C85D6B1320E, 0xD24C9A45559D80B9, 0x6F15770FA7823A28,
     0xA5AA0C13DA09FCD4]"
  by (simp add: keccak_round_def theta_unrolled rho_pi_unrolled chi_unrolled iota_def RC_def rotl_eval)

lemma hello_round_21:
  "keccak_round 21
     [0x6A53E5A4E3103738, 0x1AA01AF6D985A38, 0x1EE9D40551FAFF62, 0x50217298CE9F49AC,
     0x8AD7A50F02247B66, 0xB1394D500FC77F71, 0xF784377FF70EF707, 0x764936B715C80EA5,
     0x32742A7A4ED035E2, 0xF2A40C6E21F3F191, 0x8EED480D8D5EBE7D, 0x70DF9FEE9205060,
     0x6C2AAA50F66C663C, 0xE1B04C46D5505AB4, 0xDF20CA86EEA036D7, 0x5B4F25FD94DD726E,
     0x2FB4FE3084CC3A5C, 0x26AA40531906AC2D, 0xF0A43A0D6A1E79EA, 0xADC98FAD1B1E4983,
     0xA63A85E395BEE872, 0x24D21C85D6B1320E, 0xD24C9A45559D80B9, 0x6F15770FA7823A28,
     0xA5AA0C13DA09FCD4] =
     [0xB1E95ACFA46775C5, 0xFFEE89F2F16CD6AE, 0xBEC46DF3A9801D37, 0x9909D7221CB517D,
     0x7B08E1E7C16F78A4, 0x4811BF10DFA2CA8F, 0x4467EEA52DAEF27C, 0xA8BF9B161DC2FC46,
     0xC49CE2F374270330, 0x827220D668A326B8, 0x93466AE5C961898E, 0x503B5C41402CF6ED,
     0x824683C24C946E3C, 0x785745018874EB7E, 0xD21B79242C778021, 0xA2A99E317B3B27E3,
     0x6609C5FA60BF41F7, 0x9AF2D9D1056BD8AC, 0xFD5802F5FF924A4B, 0xA9C159EBC945C787,
     0x3D80D1F59044E516, 0x356C3CBCBD606A6A, 0x59003D654C49F51A, 0x112214913B3075B4,
     0xB3ABCA252150A92D]"
  by (simp add: keccak_round_def theta_unrolled rho_pi_unrolled chi_unrolled iota_def RC_def rotl_eval)

lemma hello_round_22:
  "keccak_round 22
     [0xB1E95ACFA46775C5, 0xFFEE89F2F16CD6AE, 0xBEC46DF3A9801D37, 0x9909D7221CB517D,
     0x7B08E1E7C16F78A4, 0x4811BF10DFA2CA8F, 0x4467EEA52DAEF27C, 0xA8BF9B161DC2FC46,
     0xC49CE2F374270330, 0x827220D668A326B8, 0x93466AE5C961898E, 0x503B5C41402CF6ED,
     0x824683C24C946E3C, 0x785745018874EB7E, 0xD21B79242C778021, 0xA2A99E317B3B27E3,
     0x6609C5FA60BF41F7, 0x9AF2D9D1056BD8AC, 0xFD5802F5FF924A4B, 0xA9C159EBC945C787,
     0x3D80D1F59044E516, 0x356C3CBCBD606A6A, 0x59003D654C49F51A, 0x112214913B3075B4,
     0xB3ABCA252150A92D] =
     [0xF18DF1B4C3AA2690, 0xDE3932D7D3CEC179, 0xC51D74C0D8E251BF, 0x3A12327139D3262E,
     0x5DFD62B5C1B54101, 0x77A4253BB7C0C593, 0xFCEC21E481F32ED9, 0x9F669CAEB647D2C2,
     0xCA820EA024C07EC0, 0x823AB61BA7D2A26C, 0xA894C17C0A5CED5, 0xCB062B929A23F31,
     0x79CCB655458BC986, 0xCE30F332CC052259, 0x7A39DDAEBA13E5B9, 0x335970982E449A6F,
     0x27F80FC70D1246A0, 0x8EFE2128590C39AC, 0x3B7FBB37DC436A72, 0x65847E9235409D26,
     0x601338BAF6512240, 0xF27082567B0FC648, 0x6C645B220FE374D7, 0xACCC63CCF8D2856B,
     0xAF7BFF9614452B95]"
  by (simp add: keccak_round_def theta_unrolled rho_pi_unrolled chi_unrolled iota_def RC_def rotl_eval)

lemma hello_round_23:
  "keccak_round 23
     [0xF18DF1B4C3AA2690, 0xDE3932D7D3CEC179, 0xC51D74C0D8E251BF, 0x3A12327139D3262E,
     0x5DFD62B5C1B54101, 0x77A4253BB7C0C593, 0xFCEC21E481F32ED9, 0x9F669CAEB647D2C2,
     0xCA820EA024C07EC0, 0x823AB61BA7D2A26C, 0xA894C17C0A5CED5, 0xCB062B929A23F31,
     0x79CCB655458BC986, 0xCE30F332CC052259, 0x7A39DDAEBA13E5B9, 0x335970982E449A6F,
     0x27F80FC70D1246A0, 0x8EFE2128590C39AC, 0x3B7FBB37DC436A72, 0x65847E9235409D26,
     0x601338BAF6512240, 0xF27082567B0FC648, 0x6C645B220FE374D7, 0xACCC63CCF8D2856B,
     0xAF7BFF9614452B95] =
     [0xEDC2850695FF8A1C, 0x7B2872344F17C34B, 0x2781949C7B51D956, 0xC8EA6DA3A7099A31,
     0xC07E940C2F72EF05, 0xB6E553E36D57068, 0x4E7AB041C3784E81, 0xB2AD11093B8AF2BA,
     0xD8C10B5F10B1F349, 0x7CA55B20DC25CE7E, 0x13971A94842CB301, 0xE91B110562AB3BFC,
     0x34B64E0AA6F2BD8A, 0x47DBEA17720F6F71, 0x8A60E190F9D1ABA9, 0xCFCCB97BEA4BFBE6,
     0xE35D097EF6A5420F, 0x7DB26ECBEACC524, 0x33CD4268A3441D9E, 0x35A2A253E1DBF0F3,
     0xCBB08998BC3FCAE5, 0xA47AD35C4C51E59C, 0x8CADFA1ECEE9C309, 0x232076D70883DDB4,
     0xBB4A3C3EF11D43CA]"
  by (simp add: keccak_round_def theta_unrolled rho_pi_unrolled chi_unrolled iota_def RC_def rotl_eval)

lemma hello_permuted:
  "keccak_f
     [0x16F6C6C6568, 0, 0, 0, 0, 0, 0, 0, 0, 0, 0, 0, 0, 0, 0, 0, 0x8000000000000000, 0, 0,
     0, 0, 0, 0, 0, 0] =
     [0xEDC2850695FF8A1C, 0x7B2872344F17C34B, 0x2781949C7B51D956, 0xC8EA6DA3A7099A31,
     0xC07E940C2F72EF05, 0xB6E553E36D57068, 0x4E7AB041C3784E81, 0xB2AD11093B8AF2BA,
     0xD8C10B5F10B1F349, 0x7CA55B20DC25CE7E, 0x13971A94842CB301, 0xE91B110562AB3BFC,
     0x34B64E0AA6F2BD8A, 0x47DBEA17720F6F71, 0x8A60E190F9D1ABA9, 0xCFCCB97BEA4BFBE6,
     0xE35D097EF6A5420F, 0x7DB26ECBEACC524, 0x33CD4268A3441D9E, 0x35A2A253E1DBF0F3,
     0xCBB08998BC3FCAE5, 0xA47AD35C4C51E59C, 0x8CADFA1ECEE9C309, 0x232076D70883DDB4,
     0xBB4A3C3EF11D43CA]"
  by (simp only: keccak_f_unrolled
      hello_round_0 hello_round_1 hello_round_2 hello_round_3 hello_round_4
      hello_round_5 hello_round_6 hello_round_7 hello_round_8 hello_round_9
      hello_round_10 hello_round_11 hello_round_12 hello_round_13 hello_round_14
      hello_round_15 hello_round_16 hello_round_17 hello_round_18 hello_round_19
      hello_round_20 hello_round_21 hello_round_22 hello_round_23)

lemma hello_squeeze:
  "take 32 (bytes_of_lanes
     [0xEDC2850695FF8A1C, 0x7B2872344F17C34B, 0x2781949C7B51D956, 0xC8EA6DA3A7099A31,
     0xC07E940C2F72EF05, 0xB6E553E36D57068, 0x4E7AB041C3784E81, 0xB2AD11093B8AF2BA,
     0xD8C10B5F10B1F349, 0x7CA55B20DC25CE7E, 0x13971A94842CB301, 0xE91B110562AB3BFC,
     0x34B64E0AA6F2BD8A, 0x47DBEA17720F6F71, 0x8A60E190F9D1ABA9, 0xCFCCB97BEA4BFBE6,
     0xE35D097EF6A5420F, 0x7DB26ECBEACC524, 0x33CD4268A3441D9E, 0x35A2A253E1DBF0F3,
     0xCBB08998BC3FCAE5, 0xA47AD35C4C51E59C, 0x8CADFA1ECEE9C309, 0x232076D70883DDB4,
     0xBB4A3C3EF11D43CA]) =
     [0x1C, 0x8A, 0xFF, 0x95, 6, 0x85, 0xC2, 0xED, 0x4B, 0xC3, 0x17, 0x4F, 0x34, 0x72, 0x28,
     0x7B, 0x56, 0xD9, 0x51, 0x7B, 0x9C, 0x94, 0x81, 0x27, 0x31, 0x9A, 9, 0xA7, 0xA3, 0x6D,
     0xEA, 0xC8]"
  by code_simp

lemma hello_digest:
  "Sum256 (ascii ''hello'') =
     Some [0x1C, 0x8A, 0xFF, 0x95, 6, 0x85, 0xC2, 0xED, 0x4B, 0xC3, 0x17, 0x4F, 0x34, 0x72,
          0x28, 0x7B, 0x56, 0xD9, 0x51, 0x7B, 0x9C, 0x94, 0x81, 0x27, 0x31, 0x9A, 9, 0xA7,
          0xA3, 0x6D, 0xEA, 0xC8]"
proof -
  have "spec_absorb (replicate 200 0) (ascii ''hello'') = (replicate 200 0, (ascii ''hello''))"
    by (rule spec_absorb_short) (simp add: rate_def ascii_def)
  then show ?thesis
    by (simp only: Sum256_eq spec_Sum256_def prod.case Let_def spec_finalize_def keccakF1600_def
        hello_lanes hello_permuted hello_squeeze)
qed

section \<open>The claims\<close>

text \<open>
  C1. For every list of chunks (empty chunks included), writing the chunks in order
  to a fresh hasher and then calling Hasher.Sum256 returns the digest that Sum256
  returns on the concatenation; so does writing the bytes of \<open>data\<close> one at a time.
\<close>

theorem streaming_eq_oneshot:
  "(\<exists>h d. run zero_Hasher (map OpWrite cs @ [OpSum256]) = Some (h, [d]) \<and>
          Sum256 (concat cs) = Some d) \<and>
   (\<exists>h d. run zero_Hasher (map (\<lambda>b. OpWrite [b]) data @ [OpSum256]) = Some (h, [d]) \<and>
          Sum256 data = Some d)"
proof -
  have g: "\<exists>h d. run zero_Hasher (map OpWrite cs @ [OpSum256]) = Some (h, [d]) \<and>
              Sum256 (concat cs) = Some d" for cs
  proof -
    obtain h where r: "run zero_Hasher (map OpWrite cs) = Some (h, [])" and i: "inv_Hasher h"
      and s: "(state h, pending h)
              = spec_absorb (state zero_Hasher) (pending zero_Hasher @ concat cs)"
      using run_writes[OF inv_zero_Hasher, of cs] by blast
    have z: "state zero_Hasher = replicate 200 0" "pending zero_Hasher = []"
      by (simp_all add: zero_Hasher_def pending_def)
    have "spec_Sum256 (concat cs) = spec_finalize (state h) (pending h)"
      using s[symmetric] by (simp add: spec_Sum256_def z)
    then show ?thesis
      by (simp add: run_append r Hasher_Sum256_eq[OF i] Sum256_eq)
  qed
  have m: "map OpWrite (map (\<lambda>b. [b]) data) = map (\<lambda>b. OpWrite [b]) data"
    by (simp add: comp_def)
  have c: "concat (map (\<lambda>b. [b]) data) = data"
    by (induction data) simp_all
  show ?thesis
    using g[of cs] g[of "map (\<lambda>b. [b]) data"] unfolding m c by blast
qed

text \<open>
  C2. Sum256 returns, for every data, the digest of the specification's algorithm:
  from the all-zero 200-byte state, while at least Rate bytes remain XOR the next Rate
  bytes into the state and permute; XOR the tail into the state, XOR 0x01 into
  \<open>state[len(tail)]\<close> and 0x80 into \<open>state[Rate-1]\<close>, permute, and return the first 32
  bytes. The tail has \<open>len(data) mod Rate\<close> bytes, so between 0 and Rate-1.
\<close>

theorem Sum256_refines_spec:
  "Sum256 data = Some (spec_Sum256 data) \<and>
   length (snd (spec_absorb (replicate 200 0) data)) = length data mod rate \<and>
   length (snd (spec_absorb (replicate 200 0) data)) < rate"
  by (simp add: Sum256_eq length_snd_spec_absorb_mod rate_def)

text \<open>
  C3. Sum256 of the empty input is
  c5d2460186f7233c927e7db2dcc703c0e500b653ca82273b7bfad8045d85a470, and Sum256 of the
  five ASCII bytes of "hello" (68 65 6c 6c 6f) is
  1c8aff950685c2ed4bc3174f3472287b56d9517b9c948127319a09a7a36deac8, the permutation
  being the standard Keccak-f[1600] that the specification asks for.
\<close>

theorem known_digests:
  "Sum256 [] =
     Some [0xc5, 0xd2, 0x46, 0x01, 0x86, 0xf7, 0x23, 0x3c, 0x92, 0x7e, 0x7d, 0xb2, 0xdc, 0xc7,
           0x03, 0xc0, 0xe5, 0x00, 0xb6, 0x53, 0xca, 0x82, 0x27, 0x3b, 0x7b, 0xfa, 0xd8, 0x04,
           0x5d, 0x85, 0xa4, 0x70] \<and>
   ascii ''hello'' = [0x68, 0x65, 0x6c, 0x6c, 0x6f] \<and>
   Sum256 (ascii ''hello'') =
     Some [0x1c, 0x8a, 0xff, 0x95, 0x06, 0x85, 0xc2, 0xed, 0x4b, 0xc3, 0x17, 0x4f, 0x34, 0x72,
           0x28, 0x7b, 0x56, 0xd9, 0x51, 0x7b, 0x9c, 0x94, 0x81, 0x27, 0x31, 0x9a, 0x09, 0xa7,
           0xa3, 0x6d, 0xea, 0xc8]"
proof -
  have "ascii ''hello'' = [0x68, 0x65, 0x6c, 0x6c, 0x6f]"
    by (simp add: ascii_def)
  then show ?thesis
    using empty_digest hello_digest by simp
qed

text \<open>
  C4. Hasher.Sum256 leaves the hasher as it was: whenever it returns, state, buf and
  absorbed are those before the call. On a hasher with a pending count in \<open>[0, Rate)\<close>
  it returns; two calls in a row give the same digest; the calls after it give what they
  give without it; and on a stream, a digest taken in the middle is that of the
  bytes so far while the digest at the end is that of all the bytes.
\<close>

theorem Hasher_Sum256_nondestructive:
  assumes "inv_Hasher h"
  shows "(\<forall>g g' d. Hasher_Sum256 g = Some (g', d) \<longrightarrow>
            state g' = state g \<and> buf g' = buf g \<and> absorbed g' = absorbed g) \<and>
         (\<exists>d. Hasher_Sum256 h = Some (h, d) \<and>
              run h [OpSum256, OpSum256] = Some (h, [d, d]) \<and>
              run h (OpSum256 # ops) = map_option (\<lambda>(h', ds). (h', d # ds)) (run h ops)) \<and>
         (\<exists>h' d1 d2. run zero_Hasher (map OpWrite cs1 @ [OpSum256] @ map OpWrite cs2 @ [OpSum256])
                       = Some (h', [d1, d2]) \<and>
                     Sum256 (concat cs1) = Some d1 \<and>
                     Sum256 (concat cs1 @ concat cs2) = Some d2)"
proof -
  have frame: "\<forall>g g' d. Hasher_Sum256 g = Some (g', d) \<longrightarrow>
            state g' = state g \<and> buf g' = buf g \<and> absorbed g' = absorbed g"
    by (auto simp: Hasher_Sum256_def Let_def split: if_splits Option.bind_splits)
  let ?d = "spec_finalize (state h) (pending h)"
  have s: "Hasher_Sum256 h = Some (h, ?d)"
    by (rule Hasher_Sum256_eq[OF assms])
  have r: "run h (OpSum256 # ops) = map_option (\<lambda>(h', ds). (h', ?d # ds)) (run h ops)"
    by (cases "run h ops") (auto simp: s)
  have local: "\<exists>d. Hasher_Sum256 h = Some (h, d) \<and>
              run h [OpSum256, OpSum256] = Some (h, [d, d]) \<and>
              run h (OpSum256 # ops) = map_option (\<lambda>(h', ds). (h', d # ds)) (run h ops)"
    using s r by (intro exI[of _ ?d]) simp
  have z: "state zero_Hasher = replicate 200 0" "pending zero_Hasher = []"
    by (simp_all add: zero_Hasher_def pending_def)
  obtain h1 where r1: "run zero_Hasher (map OpWrite cs1) = Some (h1, [])" and i1: "inv_Hasher h1"
    and s1: "(state h1, pending h1) = spec_absorb (replicate 200 0) (concat cs1)"
    using run_writes[OF inv_zero_Hasher, of cs1] by (auto simp: z)
  obtain h2 where r2: "run h1 (map OpWrite cs2) = Some (h2, [])" and i2: "inv_Hasher h2"
    and s2: "(state h2, pending h2) = spec_absorb (state h1) (pending h1 @ concat cs2)"
    using run_writes[OF i1, of cs2] by blast
  have a: "spec_absorb (replicate 200 0) (concat cs1 @ concat cs2) = (state h2, pending h2)"
    using spec_absorb_append[of "replicate 200 0" "concat cs1" "concat cs2"] s1[symmetric] s2
    by simp
  have d1: "Sum256 (concat cs1) = Some (spec_finalize (state h1) (pending h1))"
    using s1[symmetric] by (simp add: Sum256_eq spec_Sum256_def)
  have d2: "Sum256 (concat cs1 @ concat cs2) = Some (spec_finalize (state h2) (pending h2))"
    using a by (simp add: Sum256_eq spec_Sum256_def)
  have "run zero_Hasher (map OpWrite cs1 @ [OpSum256] @ map OpWrite cs2 @ [OpSum256])
        = Some (h2, [spec_finalize (state h1) (pending h1), spec_finalize (state h2) (pending h2)])"
    by (simp add: run_append r1 r2 Hasher_Sum256_eq[OF i1] Hasher_Sum256_eq[OF i2])
  then show ?thesis
    using frame local d1 d2 by blast
qed

theorem Hasher_Sum256_nondestructive_witness:
  "inv_Hasher zero_Hasher \<and>
   (\<exists>g' d. Hasher_Sum256 zero_Hasher = Some (g', d) \<and> state g' = state zero_Hasher \<and>
      buf g' = buf zero_Hasher \<and> absorbed g' = absorbed zero_Hasher) \<and>
   (\<exists>d. Hasher_Sum256 zero_Hasher = Some (zero_Hasher, d) \<and>
        run zero_Hasher [OpSum256, OpSum256] = Some (zero_Hasher, [d, d]) \<and>
        run zero_Hasher (OpSum256 # [OpWrite [1]])
          = map_option (\<lambda>(h', ds). (h', d # ds)) (run zero_Hasher [OpWrite [1]])) \<and>
   (\<exists>h' d1 d2. run zero_Hasher (map OpWrite [[1, 2]] @ [OpSum256] @ map OpWrite [[3]] @ [OpSum256])
                  = Some (h', [d1, d2]) \<and>
                Sum256 (concat [[1, 2]]) = Some d1 \<and>
                Sum256 (concat [[1, 2]] @ concat [[3]]) = Some d2)"
  using inv_zero_Hasher
    Hasher_Sum256_nondestructive [OF inv_zero_Hasher, of "[OpWrite [1]]" "[[1, 2]]" "[[3]]"]
  by blast

text \<open>
  C5. On a hasher whose fields have their array sizes, Reset sets the state to 200
  zero bytes and the pending count to 0 and keeps the buffer; after it every sequence
  of Write and Hasher.Sum256 calls returns the digests it returns on a fresh hasher.
\<close>

theorem Reset_as_fresh:
  assumes "wf_Hasher h"
  shows "state (Reset h) = replicate 200 0 \<and> absorbed (Reset h) = 0 \<and>
         buf (Reset h) = buf h \<and>
         map_option snd (run (Reset h) ops) = map_option snd (run zero_Hasher ops)"
proof -
  have "map_option snd (run (Reset h) ops) = map_option snd (run zero_Hasher ops)"
    using inv_Reset[OF assms] inv_zero_Hasher
    by (rule run_sim) (simp_all add: Reset_def zero_Hasher_def pending_def)
  then show ?thesis
    by (simp add: Reset_def)
qed

theorem Reset_as_fresh_witness:
  "wf_Hasher \<lparr>state = replicate 200 1, buf = replicate 136 2, absorbed = 5\<rparr> \<and>
   state (Reset \<lparr>state = replicate 200 1, buf = replicate 136 2, absorbed = 5\<rparr>)
     = replicate 200 0 \<and>
   absorbed (Reset \<lparr>state = replicate 200 1, buf = replicate 136 2, absorbed = 5\<rparr>) = 0 \<and>
   buf (Reset \<lparr>state = replicate 200 1, buf = replicate 136 2, absorbed = 5\<rparr>)
     = buf \<lparr>state = replicate 200 1, buf = replicate 136 2, absorbed = 5\<rparr> \<and>
   map_option snd
     (run (Reset \<lparr>state = replicate 200 1, buf = replicate 136 2, absorbed = 5\<rparr>)
        [OpWrite [9], OpSum256])
     = map_option snd (run zero_Hasher [OpWrite [9], OpSum256])"
proof -
  have w: "wf_Hasher \<lparr>state = replicate 200 1, buf = replicate 136 2, absorbed = 5\<rparr>"
    by (simp add: wf_Hasher_def rate_def)
  show ?thesis
    using w Reset_as_fresh [OF w, of "[OpWrite [9], OpSum256]"] by blast
qed

text \<open>
  C6. In every hasher state that construction, Reset, Write and Hasher.Sum256 can
  produce, \<open>0 \<le> absorbed < Rate\<close>; in particular from such a state every Write
  returns, with a state in which the bound holds again.
\<close>

theorem absorbed_lt_rate:
  assumes "reachable h"
  shows "0 \<le> absorbed h \<and> absorbed h < int rate \<and> absorbed h \<noteq> int rate \<and>
         absorbed (Reset h) = 0 \<and>
         (\<exists>h'. Write h p = Some h' \<and> 0 \<le> absorbed h' \<and> absorbed h' < int rate)"
proof -
  have i: "inv_Hasher h"
    using assms by (rule reachable_inv)
  obtain h' where "Write h p = Some h'" "inv_Hasher h'"
    using Write_spec[OF i, of p] by blast
  then show ?thesis
    using i by (auto simp: inv_Hasher_def Reset_def)
qed

theorem absorbed_lt_rate_witness:
  "reachable zero_Hasher \<and>
   0 \<le> absorbed zero_Hasher \<and> absorbed zero_Hasher < int rate \<and>
   absorbed zero_Hasher \<noteq> int rate \<and> absorbed (Reset zero_Hasher) = 0 \<and>
   (\<exists>h'. Write zero_Hasher [1, 2, 3] = Some h' \<and> 0 \<le> absorbed h' \<and> absorbed h' < int rate)"
  using reachable_zero absorbed_lt_rate [OF reachable_zero, of "[1, 2, 3]"] by blast

text \<open>
  C7. For every 200-byte state and every data of at most Rate bytes, xorIn returns
  (it does not panic) the state in which byte \<open>i\<close> is \<open>st ! i XOR data ! i\<close> for
  \<open>i < len(data)\<close> and every other byte is kept. The path through the uint64 words
  gives the same state as the per-byte loop run from index 0 over all of the data.
  The result is this XOR and nothing else: the permutation is not applied.
\<close>

theorem xorIn_bytewise:
  assumes "length st = 200" and "length data \<le> rate"
  shows "\<exists>st'. xorIn st data = Some st' \<and> length st' = 200 \<and>
           (\<forall>i. i < length data \<longrightarrow> st' ! i = st ! i XOR data ! i) \<and>
           (\<forall>i. length data \<le> i \<and> i < 200 \<longrightarrow> st' ! i = st ! i) \<and>
           xorIn_bytes st data 0 = Some st'"
proof -
  have d: "length data \<le> 200"
    using assms(2) by (simp add: rate_def)
  have "xorIn st data = Some (xor_bytes st data)"
    using assms(1) d by (rule xorIn_eq)
  moreover have "xorIn_bytes st data 0 = Some (xor_bytes st data)"
    using assms(1) d by (simp add: xorIn_bytes_eq xor_bytes_def)
  moreover have "length (xor_bytes st data) = 200"
    using assms(1) by (simp add: xor_bytes_def)
  moreover have "\<forall>i. i < length data \<longrightarrow> xor_bytes st data ! i = st ! i XOR data ! i"
    using assms(1) d by (simp add: xor_bytes_def nth_xor_range)
  moreover have "\<forall>i. length data \<le> i \<and> i < 200 \<longrightarrow> xor_bytes st data ! i = st ! i"
    using assms(1) by (simp add: xor_bytes_def nth_xor_range)
  ultimately show ?thesis by blast
qed

theorem xorIn_bytewise_witness:
  "length (replicate 200 (0::byte)) = 200 \<and> length [1, 2, 3 :: byte] \<le> rate \<and>
   (\<exists>st'. xorIn (replicate 200 0) [1, 2, 3] = Some st' \<and> length st' = 200 \<and>
      (\<forall>i. i < length [1, 2, 3 :: byte] \<longrightarrow> st' ! i = replicate 200 0 ! i XOR [1, 2, 3] ! i) \<and>
      (\<forall>i. length [1, 2, 3 :: byte] \<le> i \<and> i < 200 \<longrightarrow> st' ! i = replicate 200 0 ! i) \<and>
      xorIn_bytes (replicate 200 0) [1, 2, 3] 0 = Some st')"
proof -
  have a: "length (replicate 200 (0::byte)) = 200" by simp
  have b: "length [1, 2, 3 :: byte] \<le> rate" by (simp add: rate_def)
  show ?thesis
    using a b xorIn_bytewise [OF a b] by blast
qed

text \<open>
  C8. Two XORs in sequence at index Rate-1, of 0x01 and then of 0x80, change that
  byte by XOR with 0x81. When the input length is 135 modulo 136, Sum256 pads exactly
  so: its digest is the first 32 bytes of the permutation of the absorbed state with
  byte Rate-1 XORed with 0x81. Hasher.Sum256 does the same when the pending count is
  Rate-1.
\<close>

theorem pad_on_last_byte:
  assumes "length st = 200" and "length data mod rate = rate - 1"
    and "inv_Hasher h" and "absorbed h = int rate - 1"
  shows "(do { s \<leftarrow> xor_at st (rate - 1) 0x01; xor_at s (rate - 1) 0x80 })
           = Some (st[rate - 1 := st ! (rate - 1) XOR 0x81]) \<and>
         (\<exists>a tail. spec_absorb (replicate 200 0) data = (a, tail) \<and> length tail = rate - 1 \<and>
            Sum256 data = Some (take 32 (keccakF1600
              ((xor_bytes a tail)[rate - 1 := xor_bytes a tail ! (rate - 1) XOR 0x81])))) \<and>
         Hasher_Sum256 h = Some (h, take 32 (keccakF1600
              ((xor_bytes (state h) (pending h))
                 [rate - 1 := xor_bytes (state h) (pending h) ! (rate - 1) XOR 0x81])))"
proof -
  have x: "(v XOR 1) XOR 128 = v XOR 129" for v :: byte
    by (simp add: xor.assoc)
  have one: "(do { s \<leftarrow> xor_at st (rate - 1) 0x01; xor_at s (rate - 1) 0x80 })
           = Some (st[rate - 1 := st ! (rate - 1) XOR 0x81])"
    using assms(1) by (simp add: xor_at_def rate_def x)
  obtain a tail where sa: "spec_absorb (replicate 200 0) data = (a, tail)"
    by (cases "spec_absorb (replicate 200 0) data")
  have la: "length a = 200"
    using length_fst_spec_absorb[of "replicate 200 0" data] sa by simp
  have lt: "length tail = rate - 1"
    using length_snd_spec_absorb_mod[of "replicate 200 0" data] sa assms(2) by simp
  have pl: "spec_pad (xor_bytes a tail) (length tail)
            = (xor_bytes a tail)[rate - 1 := xor_bytes a tail ! (rate - 1) XOR 0x81]"
    unfolding lt using la by (intro spec_pad_last) simp
  have "Sum256 data = Some (take 32 (keccakF1600
          ((xor_bytes a tail)[rate - 1 := xor_bytes a tail ! (rate - 1) XOR 0x81])))"
    by (simp add: Sum256_eq spec_Sum256_def sa spec_finalize_def pl)
  then have two: "\<exists>a tail. spec_absorb (replicate 200 0) data = (a, tail) \<and> length tail = rate - 1 \<and>
            Sum256 data = Some (take 32 (keccakF1600
              ((xor_bytes a tail)[rate - 1 := xor_bytes a tail ! (rate - 1) XOR 0x81])))"
    using sa lt by blast
  have lp: "length (pending h) = rate - 1"
    using length_pending[OF assms(3)] assms(4) by (simp add: rate_def)
  have three: "Hasher_Sum256 h = Some (h, take 32 (keccakF1600
              ((xor_bytes (state h) (pending h))
                 [rate - 1 := xor_bytes (state h) (pending h) ! (rate - 1) XOR 0x81])))"
  proof -
    have "spec_pad (xor_bytes (state h) (pending h)) (length (pending h))
            = (xor_bytes (state h) (pending h))
                [rate - 1 := xor_bytes (state h) (pending h) ! (rate - 1) XOR 0x81]"
      unfolding lp using inv_HasherD(1)[OF assms(3)] by (intro spec_pad_last) simp
    then show ?thesis
      by (simp add: Hasher_Sum256_eq[OF assms(3)] spec_finalize_def)
  qed
  show ?thesis
    using one two three by blast
qed


theorem pad_on_last_byte_witness:
  "length (replicate 200 (0::byte)) = 200 \<and>
   length (replicate 135 (0::byte)) mod rate = rate - 1 \<and>
   inv_Hasher (zero_Hasher\<lparr>absorbed := 135\<rparr>) \<and>
   absorbed (zero_Hasher\<lparr>absorbed := 135\<rparr>) = int rate - 1 \<and>
   (do { s \<leftarrow> xor_at (replicate 200 0) (rate - 1) 0x01; xor_at s (rate - 1) 0x80 })
      = Some ((replicate 200 0)[rate - 1 := replicate 200 0 ! (rate - 1) XOR 0x81]) \<and>
   (\<exists>a tail. spec_absorb (replicate 200 0) (replicate 135 0) = (a, tail) \<and>
      length tail = rate - 1 \<and>
      Sum256 (replicate 135 0) = Some (take 32 (keccakF1600
        ((xor_bytes a tail)[rate - 1 := xor_bytes a tail ! (rate - 1) XOR 0x81])))) \<and>
   Hasher_Sum256 (zero_Hasher\<lparr>absorbed := 135\<rparr>)
     = Some (zero_Hasher\<lparr>absorbed := 135\<rparr>, take 32 (keccakF1600
         ((xor_bytes (state (zero_Hasher\<lparr>absorbed := 135\<rparr>))
                     (pending (zero_Hasher\<lparr>absorbed := 135\<rparr>)))
            [rate - 1 := xor_bytes (state (zero_Hasher\<lparr>absorbed := 135\<rparr>))
                           (pending (zero_Hasher\<lparr>absorbed := 135\<rparr>)) ! (rate - 1) XOR 0x81])))"
proof -
  have a: "length (replicate 200 (0::byte)) = 200" by simp
  have b: "length (replicate 135 (0::byte)) mod rate = rate - 1" by (simp add: rate_def)
  have c: "inv_Hasher (zero_Hasher\<lparr>absorbed := 135\<rparr>)"
    by (simp add: inv_Hasher_def wf_Hasher_def zero_Hasher_def rate_def)
  have d: "absorbed (zero_Hasher\<lparr>absorbed := 135\<rparr>) = int rate - 1" by (simp add: rate_def)
  show ?thesis
    using a b c d pad_on_last_byte [OF a b c d] by blast
qed

text \<open>
  C9. Sum256 returns a 32-byte digest for every data: no bounds check of the model
  fails. From every reachable hasher state, Write returns for every chunk and
  Hasher.Sum256 returns a 32-byte digest.
\<close>

theorem operations_total:
  assumes "reachable h"
  shows "(\<exists>d. Sum256 data = Some d \<and> length d = 32) \<and>
         (\<exists>h'. Write h p = Some h' \<and> reachable h') \<and>
         (\<exists>d. Hasher_Sum256 h = Some (h, d) \<and> length d = 32)"
proof -
  have i: "inv_Hasher h"
    using assms by (rule reachable_inv)
  obtain h' where w: "Write h p = Some h'"
    using Write_spec[OF i, of p] by blast
  then have "reachable h'"
    using assms by (rule reachable_Write[rotated])
  then show ?thesis
    using w by (simp add: Sum256_eq Hasher_Sum256_eq[OF i] spec_Sum256_def length_spec_finalize
        split: prod.splits)
qed

theorem operations_total_witness:
  "reachable zero_Hasher \<and>
   (\<exists>d. Sum256 [] = Some d \<and> length d = 32) \<and>
   (\<exists>h'. Write zero_Hasher (replicate 136 0) = Some h' \<and> reachable h') \<and>
   (\<exists>d. Hasher_Sum256 zero_Hasher = Some (zero_Hasher, d) \<and> length d = 32)"
  using reachable_zero operations_total [OF reachable_zero, of "[]" "replicate 136 0"] by blast

text \<open>
  C10. On a hasher with 200 state bytes, Rate buffer bytes and a pending count in
  \<open>[0, Rate)\<close>, Write of the empty chunk returns the hasher unchanged; an empty Write
  put anywhere into a sequence of calls changes neither the digests nor the final
  hasher.
\<close>

theorem Write_empty_noop:
  assumes "inv_Hasher h"
  shows "Write h [] = Some h \<and> run h (ops1 @ OpWrite [] # ops2) = run h (ops1 @ ops2)"
proof -
  have "run h (ops1 @ OpWrite [] # ops2) = run h (ops1 @ ops2)"
    using assms
  proof (induction ops1 arbitrary: h)
    case Nil
    then show ?case by (simp add: Write_empty)
  next
    case (Cons o1 ops1)
    show ?case
    proof (cases o1)
      case (OpWrite p)
      obtain h' where "Write h p = Some h'" "inv_Hasher h'"
        using Write_spec[OF Cons.prems, of p] by blast
      then show ?thesis
        using Cons.IH[of h'] by (simp add: OpWrite)
    next
      case OpSum256
      then show ?thesis
        using Cons.IH[OF Cons.prems] by (simp add: Hasher_Sum256_eq[OF Cons.prems])
    qed
  qed
  then show ?thesis
    using assms by (simp add: Write_empty)
qed

theorem Write_empty_noop_witness:
  "inv_Hasher zero_Hasher \<and> Write zero_Hasher [] = Some zero_Hasher \<and>
   run zero_Hasher ([OpWrite [7]] @ OpWrite [] # [OpSum256])
     = run zero_Hasher ([OpWrite [7]] @ [OpSum256])"
  using inv_zero_Hasher Write_empty_noop [OF inv_zero_Hasher, of "[OpWrite [7]]" "[OpSum256]"]
  by blast

end
